theory Spec2Isabelle
  imports Main "HOL-Library.Word"
begin

section \<open>Logging\<close>

text \<open>
  \<^verbatim>\<open>IOX_LOG(LEVEL) << a << b << ...\<close> is recorded as one entry: the level and the streamed
  items in order. Numbers keep the base they are streamed in.
\<close>

datatype LogLevel = ERROR | WARN | DEBUG

datatype AccessMode = READ_ONLY | READ_WRITE

datatype OpenMode = OPEN_EXISTING | OPEN_OR_CREATE | EXCLUSIVE_CREATE

datatype LogItem =
    Str string
  | Dec nat
  | Hex nat
  | Oct int

type_synonym log_entry = "LogLevel \<times> LogItem list"

text \<open>The character \<^verbatim>\<open>\"\<close> of the C++ string literals.\<close>

definition dq :: string where
  "dq = [CHR 0x22]"

section \<open>file\_lock.cpp: the errno translation\<close>

text \<open>
  The errno constants come from the platform's \<^verbatim>\<open>errno.hpp\<close>, which is not among the
  sources: they are a parameter of the model. A C++ \<^verbatim>\<open>switch\<close> cannot be compiled with two
  equal case labels, so the tables the code can be built with are the ones of
  \<open>distinct_case_labels\<close>.
\<close>

record errnos =
  EACCES :: int
  EDQUOT :: int
  EFAULT :: int
  EFBIG :: int
  EOVERFLOW :: int
  ELOOP :: int
  EMFILE :: int
  ENFILE :: int
  ENODEV :: int
  ENOENT :: int
  ENOMEM :: int
  ENOSPC :: int
  ENOSYS :: int
  ENXIO :: int
  EPERM :: int
  EROFS :: int
  ETXTBSY :: int
  EWOULDBLOCK :: int
  ENOLCK :: int
  EIO :: int

definition case_labels :: "errnos \<Rightarrow> int list" where
  "case_labels E =
     [EACCES E, EDQUOT E, EFAULT E, EFBIG E, EOVERFLOW E, ELOOP E, EMFILE E, ENFILE E,
      ENODEV E, ENOENT E, ENOMEM E, ENOSPC E, ENOSYS E, ENXIO E, EPERM E, EROFS E,
      ETXTBSY E, EWOULDBLOCK E, ENOLCK E, EIO E]"

definition distinct_case_labels :: "errnos \<Rightarrow> bool" where
  "distinct_case_labels E = distinct (case_labels E)"

text \<open>The values of Linux, for concrete runs.\<close>

definition linux_errnos :: errnos where
  "linux_errnos =
     \<lparr>EACCES = 13, EDQUOT = 122, EFAULT = 14, EFBIG = 27, EOVERFLOW = 75, ELOOP = 40,
      EMFILE = 24, ENFILE = 23, ENODEV = 19, ENOENT = 2, ENOMEM = 12, ENOSPC = 28,
      ENOSYS = 38, ENXIO = 6, EPERM = 1, EROFS = 30, ETXTBSY = 26, EWOULDBLOCK = 11,
      ENOLCK = 37, EIO = 5\<rparr>"

datatype FileLockError =
    INVALID_FILE_NAME
  | INVALID_PATH
  | LOCKED_BY_OTHER_PROCESS
  | ACCESS_DENIED
  | QUOTA_EXHAUSTED
  | FILE_TOO_LARGE
  | PROCESS_LIMIT
  | SYSTEM_LIMIT
  | NO_SUCH_DIRECTORY
  | OUT_OF_MEMORY
  | SYS_CALL_NOT_IMPLEMENTED
  | SPECIAL_FILE
  | FILE_IN_USE
  | I_O_ERROR
  | INTERNAL_LOGIC_ERROR

text \<open>
  \<^verbatim>\<open>FileLock::convertErrnoToFileLockError(errnum, fileLockPath)\<close>: the returned error and
  the entries it logs. \<open>prefix\<close> is \<^verbatim>\<open>platform::IOX_LOCK_FILE_PATH_PREFIX\<close>.
\<close>

definition convertErrnoToFileLockError ::
  "errnos \<Rightarrow> string \<Rightarrow> int \<Rightarrow> string \<Rightarrow> FileLockError \<times> log_entry list" where
  "convertErrnoToFileLockError E prefix errnum fileLockPath =
    (if errnum = EACCES E then
       (ACCESS_DENIED,
        [(ERROR, [Str (''permission denied for file lock '' @ dq), Str fileLockPath, Str dq])])
     else if errnum = EDQUOT E then
       (QUOTA_EXHAUSTED,
        [(ERROR, [Str (''user disk quota exhausted for file lock '' @ dq), Str fileLockPath,
                  Str dq])])
     else if errnum = EFAULT E then
       (ACCESS_DENIED,
        [(ERROR, [Str (''outside address space error for file lock '' @ dq), Str fileLockPath,
                  Str dq])])
     else if errnum = EFBIG E \<or> errnum = EOVERFLOW E then
       (FILE_TOO_LARGE,
        [(ERROR, [Str (''file lock '' @ dq), Str fileLockPath, Str dq,
                  Str '' is too large to be openend''])])
     else if errnum = ELOOP E then
       (INVALID_FILE_NAME,
        [(ERROR, [Str (''too many symbolic links for file lock '' @ dq), Str fileLockPath,
                  Str dq])])
     else if errnum = EMFILE E then
       (PROCESS_LIMIT,
        [(ERROR, [Str (''process limit reached for file lock '' @ dq), Str fileLockPath,
                  Str dq])])
     else if errnum = ENFILE E then
       (SYSTEM_LIMIT,
        [(ERROR, [Str (''system limit reached for file lock '' @ dq), Str fileLockPath,
                  Str dq])])
     else if errnum = ENODEV E then
       (ACCESS_DENIED,
        [(ERROR, [Str (''permission to access file lock denied '' @ dq), Str fileLockPath,
                  Str dq])])
     else if errnum = ENOENT E then
       (NO_SUCH_DIRECTORY,
        [(ERROR, [Str (''directory '' @ dq), Str prefix, Str dq, Str '' does not exist.''])])
     else if errnum = ENOMEM E then
       (OUT_OF_MEMORY,
        [(ERROR, [Str (''out of memory for file lock '' @ dq), Str fileLockPath, Str dq])])
     else if errnum = ENOSPC E then
       (QUOTA_EXHAUSTED,
        [(ERROR, [Str (''Device has no space for file lock '' @ dq), Str fileLockPath,
                  Str dq])])
     else if errnum = ENOSYS E then
       (SYS_CALL_NOT_IMPLEMENTED,
        [(ERROR, [Str (''open() not implemented for filesystem to '' @ dq), Str fileLockPath,
                  Str dq])])
     else if errnum = ENXIO E then
       (SPECIAL_FILE,
        [(ERROR, [Str dq, Str fileLockPath, Str dq,
                  Str '' is a special file and no corresponding device exists''])])
     else if errnum = EPERM E then
       (ACCESS_DENIED,
        [(ERROR, [Str (''permission denied to file lock '' @ dq), Str fileLockPath, Str dq])])
     else if errnum = EROFS E then
       (INVALID_FILE_NAME,
        [(ERROR, [Str (''read only error for file lock '' @ dq), Str fileLockPath, Str dq])])
     else if errnum = ETXTBSY E then
       (FILE_IN_USE,
        [(ERROR, [Str (''write access requested for file lock '' @ dq), Str fileLockPath,
                  Str dq, Str '' in use''])])
     else if errnum = EWOULDBLOCK E then
       (LOCKED_BY_OTHER_PROCESS, [])
     else if errnum = ENOLCK E then
       (SYSTEM_LIMIT,
        [(ERROR, [Str (''system limit for locks reached for file lock '' @ dq),
                  Str fileLockPath, Str dq])])
     else if errnum = EIO E then
       (I_O_ERROR,
        [(ERROR, [Str (''I/O for file lock '' @ dq), Str fileLockPath, Str dq])])
     else
       (INTERNAL_LOGIC_ERROR,
        [(ERROR, [Str (''internal logic error in file lock '' @ dq), Str fileLockPath,
                  Str (dq @ '' occurred'')])]))"

text \<open>The enumeration of the error translator, as the specification lists it.\<close>

definition translated_errors :: "FileLockError set" where
  "translated_errors =
     {ACCESS_DENIED, QUOTA_EXHAUSTED, FILE_TOO_LARGE, INVALID_FILE_NAME, PROCESS_LIMIT,
      SYSTEM_LIMIT, NO_SUCH_DIRECTORY, OUT_OF_MEMORY, SYS_CALL_NOT_IMPLEMENTED, SPECIAL_FILE,
      FILE_IN_USE, LOCKED_BY_OTHER_PROCESS, I_O_ERROR, INTERNAL_LOGIC_ERROR}"

section \<open>file\_lock.cpp: the operating system and the objects\<close>

text \<open>
  The helpers and constants of the platform layer that \<^verbatim>\<open>file_lock.cpp\<close> uses and that
  are declared outside the sources are parameters.
\<close>

record platform =
  isValidFileName :: "string \<Rightarrow> bool"
  isValidPathToDirectory :: "string \<Rightarrow> bool"
  doesEndWithPathSeparator :: "string \<Rightarrow> bool"
  IOX_PATH_SEPARATORS_0 :: char
  LOCK_FILE_SUFFIX :: string
  IOX_LOCK_FILE_PATH_PREFIX :: string
  unsafe_append :: "string \<Rightarrow> string \<Rightarrow> string"
  convertToOflags :: "AccessMode \<Rightarrow> OpenMode \<Rightarrow> int"

datatype LockOperation = LOCK | UNLOCK

datatype syscall =
    iox_open string int int
  | iox_flock int LockOperation
  | iox_close int
  | remove string

text \<open>
  \<^verbatim>\<open>posixCall(f)(args).failureReturnValue(-1).evaluate()\<close> is the generic wrapper, outside
  the sources. Its outcome is \<open>Inl errnum\<close> when the call failed and \<open>Inr value\<close> when
  it succeeded; the operating system behind it is any state type \<open>'os\<close> with any
  transition function. What the wrapper itself logs (and
  \<^verbatim>\<open>suppressErrorMessagesForErrnos\<close>, which only concerns that) is outside the model.
  Descriptors, return values and error numbers are \<^verbatim>\<open>int32_t\<close> in the code, which only
  compares and passes them on: they are integers here.
\<close>

type_synonym 'os posix = "syscall \<Rightarrow> 'os \<Rightarrow> (int + int) \<times> 'os"

text \<open>Modelled from the spec: the header declaring \<^verbatim>\<open>FileLock::INVALID_FD\<close> is not among the
  sources; the specification calls it the sentinel descriptor of an invalidated instance, and
  \<open>-1\<close> is the failure value of \<^verbatim>\<open>open\<close> that no live descriptor equals.\<close>

definition INVALID_FD :: int where
  "INVALID_FD = - 1"

record FileLock =
  m_fd :: int
  m_fileLockPath :: string

type_synonym addr = "64 word"

text \<open>
  The process as the file lock sees it: the \<open>FileLock\<close> objects by address (moves are
  between two references, which may alias), the wrapped system calls made so far, the log and
  the operating system.
\<close>

record 'os world =
  heap :: "addr \<Rightarrow> FileLock"
  calls :: "syscall list"
  logs :: "log_entry list"
  os :: 'os

definition posixCall :: "'os posix \<Rightarrow> syscall \<Rightarrow> 'os world \<Rightarrow> (int + int) \<times> 'os world" where
  "posixCall sys c w =
     (case sys c (os w) of (r, s') \<Rightarrow> (r, w\<lparr>calls := calls w @ [c], os := s'\<rparr>))"

definition add_logs :: "log_entry list \<Rightarrow> 'os world \<Rightarrow> 'os world" where
  "add_logs es w = w\<lparr>logs := logs w @ es\<rparr>"

record FileLockBuilder =
  m_name :: string
  m_path :: string
  m_permission :: int

text \<open>
  The path of the lock file, as \<^verbatim>\<open>FileLockBuilder::create\<close> composes it: its statements
  from \<^verbatim>\<open>FileLock::FilePath_t fileLockPath = m_path;\<close> to
  \<^verbatim>\<open>fileLockPath.unsafe_append(FileLock::LOCK_FILE_SUFFIX);\<close>.
\<close>

definition lock_file_path :: "platform \<Rightarrow> FileLockBuilder \<Rightarrow> string" where
  "lock_file_path P b =
     (let fileLockPath = m_path b;
          fileLockPath =
            (if \<not> doesEndWithPathSeparator P fileLockPath
             then unsafe_append P fileLockPath [IOX_PATH_SEPARATORS_0 P] else fileLockPath);
          fileLockPath = unsafe_append P fileLockPath (m_name b)
      in unsafe_append P fileLockPath (LOCK_FILE_SUFFIX P))"

text \<open>
  \<^verbatim>\<open>FileLockBuilder::create\<close>. The lock that is returned is the value
  \<^verbatim>\<open>FileLock(fileDescriptor, fileLockPath)\<close>.
\<close>

definition FileLockBuilder_create ::
  "errnos \<Rightarrow> platform \<Rightarrow> 'os posix \<Rightarrow> FileLockBuilder \<Rightarrow> 'os world
     \<Rightarrow> (FileLockError + FileLock) \<times> 'os world" where
  "FileLockBuilder_create E P sys b w =
    (if \<not> isValidFileName P (m_name b) then
       (Inl INVALID_FILE_NAME,
        add_logs [(ERROR, [Str (''Unable to create FileLock since the name '' @ dq),
                           Str (m_name b), Str (dq @ '' is not a valid file name.'')])] w)
     else if \<not> isValidPathToDirectory P (m_path b) then
       (Inl INVALID_PATH,
        add_logs [(ERROR, [Str (''Unable to create FileLock since the path '' @ dq),
                           Str (m_path b), Str (dq @ '' is not a valid path.'')])] w)
     else
       let fileLockPath = lock_file_path P b;
           (openCall, w) =
             posixCall sys (iox_open fileLockPath (convertToOflags P READ_ONLY OPEN_OR_CREATE)
                              (m_permission b)) w
       in case openCall of
            Inl errnum \<Rightarrow>
              (case convertErrnoToFileLockError E (IOX_LOCK_FILE_PATH_PREFIX P) errnum
                      fileLockPath of
                 (e, l) \<Rightarrow> (Inl e, add_logs l w))
          | Inr fileDescriptor \<Rightarrow>
              (let (lockCall, w) = posixCall sys (iox_flock fileDescriptor LOCK) w
               in case lockCall of
                    Inl errnum \<Rightarrow>
                      (let (closeCall, w) = posixCall sys (iox_close fileDescriptor) w;
                           w = (case closeCall of
                                  Inl closeErrnum \<Rightarrow>
                                    add_logs
                                      (snd (convertErrnoToFileLockError E
                                              (IOX_LOCK_FILE_PATH_PREFIX P) closeErrnum
                                              fileLockPath)
                                       @ [(ERROR, [Str (''Unable to close file lock '' @ dq),
                                                   Str fileLockPath,
                                                   Str (dq @ '' in error related cleanup during initialization.'')])])
                                      w
                                | Inr v \<Rightarrow> w)
                       in case convertErrnoToFileLockError E (IOX_LOCK_FILE_PATH_PREFIX P)
                                 errnum fileLockPath of
                            (e, l) \<Rightarrow> (Inl e, add_logs l w))
                  | Inr v \<Rightarrow>
                      (Inr \<lparr>m_fd = fileDescriptor, m_fileLockPath = fileLockPath\<rparr>, w)))"

text \<open>
  One step of the cleanup in \<^verbatim>\<open>closeFileDescriptor\<close>: the wrapped call followed by its
  \<^verbatim>\<open>or_else\<close> handler, which sets \<^verbatim>\<open>cleanupFailed\<close>, translates the errno for its log
  entry (the result is discarded) and logs \<open>entry\<close>.
\<close>

definition cleanup_step ::
  "errnos \<Rightarrow> platform \<Rightarrow> 'os posix \<Rightarrow> syscall \<Rightarrow> string \<Rightarrow> log_entry
     \<Rightarrow> bool \<times> 'os world \<Rightarrow> bool \<times> 'os world" where
  "cleanup_step E P sys c path entry st =
     (case st of (cleanupFailed, w) \<Rightarrow>
        (case posixCall sys c w of
           (Inl errnum, w') \<Rightarrow>
             (True,
              add_logs (snd (convertErrnoToFileLockError E (IOX_LOCK_FILE_PATH_PREFIX P)
                               errnum path) @ [entry]) w')
         | (Inr v, w') \<Rightarrow> (cleanupFailed, w')))"

definition closeFileDescriptor ::
  "errnos \<Rightarrow> platform \<Rightarrow> 'os posix \<Rightarrow> addr \<Rightarrow> 'os world \<Rightarrow> (FileLockError + unit) \<times> 'os world"
  where
  "closeFileDescriptor E P sys this w =
    (let fd = m_fd (heap w this); path = m_fileLockPath (heap w this) in
     if fd \<noteq> INVALID_FD then
       let st = (False, w);
           st = cleanup_step E P sys (iox_flock fd UNLOCK) path
                  (ERROR, [Str (''Unable to unlock the file lock '' @ dq), Str path, Str dq]) st;
           st = cleanup_step E P sys (iox_close fd) path
                  (ERROR, [Str (''Unable to close the file handle to the file lock '' @ dq),
                           Str path, Str dq]) st;
           st = cleanup_step E P sys (remove path) path
                  (ERROR, [Str (''Unable to remove the file lock '' @ dq), Str path, Str dq]) st
       in if fst st then (Inl INTERNAL_LOGIC_ERROR, snd st) else (Inr (), snd st)
     else (Inr (), w))"




text \<open>\<^verbatim>\<open>FileLock::~FileLock\<close>.\<close>

definition destructor :: "errnos \<Rightarrow> platform \<Rightarrow> 'os posix \<Rightarrow> addr \<Rightarrow> 'os world \<Rightarrow> 'os world" where
  "destructor E P sys this w =
    (let (r, w) = closeFileDescriptor E P sys this w
     in case r of
          Inl e \<Rightarrow>
            add_logs [(ERROR, [Str (''unable to cleanup file lock '' @ dq),
                               Str (m_fileLockPath (heap w this)),
                               Str (dq @ '' in the destructor'')])] w
        | Inr u \<Rightarrow> w)"

text \<open>A platform and an operating system for concrete runs.\<close>

definition test_platform :: platform where
  "test_platform =
     \<lparr>isValidFileName = (\<lambda>n. n \<noteq> []),
      isValidPathToDirectory = (\<lambda>p. p \<noteq> []),
      doesEndWithPathSeparator = (\<lambda>p. p \<noteq> [] \<and> last p = CHR ''/''),
      IOX_PATH_SEPARATORS_0 = CHR ''/'',
      LOCK_FILE_SUFFIX = ''.lock'',
      IOX_LOCK_FILE_PATH_PREFIX = ''/tmp/'',
      unsafe_append = (\<lambda>s t. s @ t),
      convertToOflags = (\<lambda>a m. 64)\<rparr>"


text \<open>The lock is held by another process: \<^verbatim>\<open>flock\<close> fails with \<^verbatim>\<open>EWOULDBLOCK\<close>, and
  \<^verbatim>\<open>close\<close> fails too (with \<^verbatim>\<open>EIO\<close>).\<close>

fun sys_contended :: "unit posix" where
  "sys_contended (iox_open p f m) s = (Inr 3, s)"
| "sys_contended (iox_flock fd op) s = (Inl 11, s)"
| "sys_contended (iox_close fd) s = (Inl 5, s)"
| "sys_contended c s = (Inr 0, s)"

definition world0 :: "unit world" where
  "world0 =
     \<lparr>heap = (\<lambda>a. \<lparr>m_fd = INVALID_FD, m_fileLockPath = ''''\<rparr>),
      calls = [], logs = [], os = ()\<rparr>"

text \<open>A world with one lock, at address 1, on descriptor 3.\<close>

definition world1 :: "unit world" where
  "world1 =
     world0\<lparr>heap := (heap world0)(1 := \<lparr>m_fd = 3, m_fileLockPath = ''/tmp/a.lock''\<rparr>)\<rparr>"

definition test_lock_builder :: FileLockBuilder where
  "test_lock_builder = \<lparr>m_name = ''a'', m_path = ''/tmp'', m_permission = 384\<rparr>"

section \<open>The bump allocator\<close>

text \<open>Modelled from the spec: the bump allocator (\<^verbatim>\<open>BumpAllocator\<close>, constructed and called in
  \<^verbatim>\<open>shared_memory_object.cpp\<close>) has no source file among the sources. The specification gives
  its data, \<^verbatim>\<open>{ start: raw pointer, size: u64, currentOffset: u64 }\<close>, and its behaviour: it
  "monotonically carves sub-regions out of a mapped region, honoring alignment; never frees
  individual allocations", with "alignment padding computed explicitly" and an out-of-space
  condition. Addresses and sizes are natural numbers; the padding moves the current address
  up to the next multiple of the alignment (an alignment of 0 asks for none).\<close>

record BumpAllocator =
  ba_start :: nat
  ba_size :: nat
  ba_currentOffset :: nat

text \<open>Modelled from the spec: the allocator's error type is not among the sources; the
  specification names one condition, out of space.\<close>

datatype BumpAllocatorError = OUT_OF_SPACE

text \<open>Modelled from the spec: the allocator's constructor is not among the sources; a new
  allocator spans the given region and has handed out nothing.\<close>

definition BumpAllocator_new :: "nat \<Rightarrow> nat \<Rightarrow> BumpAllocator" where
  "BumpAllocator_new startAddress length' =
     \<lparr>ba_start = startAddress, ba_size = length', ba_currentOffset = 0\<rparr>"

text \<open>Modelled from the spec: the alignment helper is not among the sources; "alignment
  padding computed explicitly" is the move to the next multiple of the alignment at or above
  the address.\<close>

definition align_up :: "nat \<Rightarrow> nat \<Rightarrow> nat" where
  "align_up address alignment =
     (if alignment = 0 then address
      else ((address + alignment - 1) div alignment) * alignment)"

text \<open>Modelled from the spec: \<^verbatim>\<open>BumpAllocator::allocate\<close> is not among the sources. The
  allocation starts at the aligned current address; it is granted when it ends within the
  region, and then the offset moves to its end; otherwise the allocator is out of space and
  stays as it is.\<close>

definition BumpAllocator_allocate ::
  "BumpAllocator \<Rightarrow> nat \<Rightarrow> nat \<Rightarrow> (BumpAllocatorError + nat) \<times> BumpAllocator" where
  "BumpAllocator_allocate A n alignment =
     (let p = align_up (ba_start A + ba_currentOffset A) alignment;
          nextOffset = p - ba_start A + n
      in if nextOffset \<le> ba_size A then (Inr p, A\<lparr>ba_currentOffset := nextOffset\<rparr>)
         else (Inl OUT_OF_SPACE, A))"

section \<open>shared\_memory\_object.cpp\<close>

datatype SharedMemoryObjectError =
    SHARED_MEMORY_CREATION_FAILED
  | MAPPING_SHARED_MEMORY_FAILED
  | INTERNAL_LOGIC_FAILURE

datatype SharedMemoryAllocationError =
    REQUESTED_MEMORY_AFTER_FINALIZED_ALLOCATION
  | NOT_ENOUGH_MEMORY
  | REQUESTED_ZERO_SIZED_MEMORY

text \<open>
  The two collaborators, by what \<^verbatim>\<open>shared_memory_object.cpp\<close> reads of them:
  \<^verbatim>\<open>getHandle()\<close>, \<^verbatim>\<open>hasOwnership()\<close> and \<^verbatim>\<open>getBaseAddress()\<close>.
\<close>

record SharedMemory =
  handle :: int
  ownership :: bool

record MemoryMap =
  baseAddress :: nat
  mappedLength :: nat

record SharedMemoryObject =
  m_memorySizeInBytes :: "64 word"
  m_sharedMemory :: SharedMemory
  m_memoryMap :: MemoryMap
  m_allocator :: BumpAllocator
  m_allocationFinalized :: bool

record SharedMemoryObjectBuilder =
  b_name :: string
  b_memorySizeInBytes :: "64 word"
  b_accessMode :: AccessMode
  b_openMode :: OpenMode
  b_baseAddressHint :: "nat option"
  b_permissions :: int

datatype fmt_arg =
    ArgString string
  | ArgULongLong "64 word"
  | ArgPointer nat
  | ArgUnsigned int

text \<open>
  What the process does that is visible outside the object: the calls to the collaborators,
  the mutex, the signal handler registration, the write of the diagnostic buffer, the zero
  fill, and the handler's \<^verbatim>\<open>write\<close> and \<^verbatim>\<open>_exit\<close>.
\<close>

datatype effect =
    create_SharedMemory string AccessMode OpenMode int "64 word"
  | create_MemoryMap nat "64 word" int AccessMode
  | lock_sigbusHandlerMutex
  | unlock_sigbusHandlerMutex
  | registerSignalHandler_BUS
  | restoreSignalHandler_BUS
  | snprintf_sigbusErrorMessage string
  | memset nat nat nat
  | write_fd int string
  | exit_process int

record process =
  memory :: "nat \<Rightarrow> 8 word"
  sigbusErrorMessage :: string
  effects :: "effect list"
  log_entries :: "log_entry list"

text \<open>
  The platform constants, the C library's \<^verbatim>\<open>snprintf\<close> and the outcomes of the
  collaborators are parameters: \<open>SharedMemoryBuilder_create\<close> and
  \<open>MemoryMapBuilder_create\<close> give \<open>None\<close> when the builder returns an error (the code
  does not read which), \<open>registerSignalHandler_succeeds\<close> says whether the guard holds no
  error, and \<open>memset_sigbus\<close> gives the offset at which zeroing the mapping raises SIGBUS,
  if it does.
\<close>

record environment =
  IOX_SHM_WRITE_ZEROS_ON_CREATION :: bool
  IOX_MAX_SHM_NAME_LENGTH :: nat
  asStringLiteral_AccessMode :: "AccessMode \<Rightarrow> string"
  asStringLiteral_OpenMode :: "OpenMode \<Rightarrow> string"
  snprintf :: "string \<Rightarrow> fmt_arg list \<Rightarrow> string"
  SharedMemoryBuilder_create ::
    "string \<Rightarrow> AccessMode \<Rightarrow> OpenMode \<Rightarrow> int \<Rightarrow> 64 word \<Rightarrow> SharedMemory option"
  MemoryMapBuilder_create :: "nat \<Rightarrow> 64 word \<Rightarrow> int \<Rightarrow> AccessMode \<Rightarrow> MemoryMap option"
  registerSignalHandler_succeeds :: bool
  memset_sigbus :: "nat option"

definition SIGBUS_ERROR_MESSAGE_LENGTH :: "environment \<Rightarrow> nat" where
  "SIGBUS_ERROR_MESSAGE_LENGTH env = 1024 + IOX_MAX_SHM_NAME_LENGTH env"

definition STDERR_FILENO :: int where
  "STDERR_FILENO = 2"

definition EXIT_FAILURE :: int where
  "EXIT_FAILURE = 1"

definition add_effects :: "effect list \<Rightarrow> process \<Rightarrow> process" where
  "add_effects es p = p\<lparr>effects := effects p @ es\<rparr>"

definition add_log :: "log_entry list \<Rightarrow> process \<Rightarrow> process" where
  "add_log es p = p\<lparr>log_entries := log_entries p @ es\<rparr>"

definition strnlen :: "string \<Rightarrow> nat \<Rightarrow> nat" where
  "strnlen s maxlen = min (length s) maxlen"

text \<open>\<^verbatim>\<open>memsetSigbusHandler\<close>: write the buffer to the error stream and leave.\<close>

definition memsetSigbusHandler :: "environment \<Rightarrow> process \<Rightarrow> process" where
  "memsetSigbusHandler env p =
     add_effects
       [write_fd STDERR_FILENO
          (take (strnlen (sigbusErrorMessage p) (SIGBUS_ERROR_MESSAGE_LENGTH env))
             (sigbusErrorMessage p)),
        exit_process EXIT_FAILURE] p"

definition sigbus_format :: string where
  "sigbus_format =
     ''While setting the acquired shared memory to zero a fatal SIGBUS signal appeared caused by memset. The ''
     @ ''shared memory object with the following properties [ name = %s, sizeInBytes = %llu, access mode = %s, ''
     @ ''open mode = %s, baseAddressHint = %p, permissions = %u ] maybe requires more memory than it is ''
     @ ''currently available in the system.'' @ [CHR 0x0A]"

definition printErrorDetails :: "environment \<Rightarrow> SharedMemoryObjectBuilder \<Rightarrow> log_entry" where
  "printErrorDetails env b =
     (ERROR,
      [Str ''Unable to create a shared memory object with the following properties [ name = '',
       Str (b_name b),
       Str '', sizeInBytes = '', Dec (unat (b_memorySizeInBytes b)),
       Str '', access mode = '', Str (asStringLiteral_AccessMode env (b_accessMode b)),
       Str '', open mode = '', Str (asStringLiteral_OpenMode env (b_openMode b)),
       Str '', baseAddressHint = '',
       (case b_baseAddressHint b of Some a \<Rightarrow> Hex a | None \<Rightarrow> Str '' (no hint set)''),
       Str '', permissions = '', Oct (b_permissions b), Str '' ]''])"

definition zero_fill :: "nat \<Rightarrow> nat \<Rightarrow> (nat \<Rightarrow> 8 word) \<Rightarrow> (nat \<Rightarrow> 8 word)" where
  "zero_fill base n m = (\<lambda>a. if base \<le> a \<and> a < base + n then 0 else m a)"

text \<open>How a call ends: it returns, or the process has left through \<^verbatim>\<open>_exit\<close>.\<close>

datatype 'a outcome = Returned 'a | Exited int

text \<open>
  \<^verbatim>\<open>SharedMemoryObjectBuilder::create\<close>. The builder's members \<^verbatim>\<open>m_name\<close>,
  \<^verbatim>\<open>m_memorySizeInBytes\<close>, ... are the fields \<open>b_name\<close>, \<open>b_memorySizeInBytes\<close>, ...
  The object under construction gets \<^verbatim>\<open>m_allocationFinalized\<close> unset. At the end of the
  zero-fill block the signal guard and then the lock guard go out of scope; on the early
  return the guard holds an error and only the lock is released.
\<close>

definition SharedMemoryObjectBuilder_create ::
  "environment \<Rightarrow> SharedMemoryObjectBuilder \<Rightarrow> process
     \<Rightarrow> (SharedMemoryObjectError + SharedMemoryObject) outcome \<times> process" where
  "SharedMemoryObjectBuilder_create env b p =
    (let p = add_effects [create_SharedMemory (b_name b) (b_accessMode b) (b_openMode b)
                            (b_permissions b) (b_memorySizeInBytes b)] p
     in case SharedMemoryBuilder_create env (b_name b) (b_accessMode b) (b_openMode b)
               (b_permissions b) (b_memorySizeInBytes b) of
          None \<Rightarrow>
            (Returned (Inl SHARED_MEMORY_CREATION_FAILED),
             add_log [printErrorDetails env b,
                      (ERROR, [Str ''Unable to create SharedMemoryObject since we could not acquire a SharedMemory resource''])] p)
        | Some sharedMemory \<Rightarrow>
            (let hint = (case b_baseAddressHint b of Some a \<Rightarrow> a | None \<Rightarrow> 0);
                 p = add_effects [create_MemoryMap hint (b_memorySizeInBytes b)
                                    (handle sharedMemory) (b_accessMode b)] p
             in case MemoryMapBuilder_create env hint (b_memorySizeInBytes b)
                       (handle sharedMemory) (b_accessMode b) of
                  None \<Rightarrow>
                    (Returned (Inl MAPPING_SHARED_MEMORY_FAILED),
                     add_log [printErrorDetails env b,
                              (ERROR, [Str ''Failed to map created shared memory into process!''])] p)
                | Some memoryMap \<Rightarrow>
                    (let allocator = BumpAllocator_new (baseAddress memoryMap)
                                       (unat (b_memorySizeInBytes b));
                         object = \<lparr>m_memorySizeInBytes = b_memorySizeInBytes b,
                                   m_sharedMemory = sharedMemory,
                                   m_memoryMap = memoryMap,
                                   m_allocator = allocator,
                                   m_allocationFinalized = False\<rparr>
                     in if ownership sharedMemory then
                          (let p = add_log [(DEBUG, [Str ''Trying to reserve '',
                                                     Dec (unat (b_memorySizeInBytes b)),
                                                     Str '' bytes in the shared memory ['',
                                                     Str (b_name b), Str '']''])] p;
                               acquired = (DEBUG, [Str ''Acquired '',
                                                   Dec (unat (b_memorySizeInBytes b)),
                                                   Str '' bytes successfully in the shared memory ['',
                                                   Str (b_name b), Str '']''])
                           in if IOX_SHM_WRITE_ZEROS_ON_CREATION env then
                                (let p = add_effects [lock_sigbusHandlerMutex] p;
                                     p = add_effects [registerSignalHandler_BUS] p
                                 in if \<not> registerSignalHandler_succeeds env then
                                      (Returned (Inl INTERNAL_LOGIC_FAILURE),
                                       add_effects [unlock_sigbusHandlerMutex]
                                         (add_log [printErrorDetails env b,
                                                   (ERROR, [Str ''Failed to temporarily override SIGBUS to safely zero the shared memory''])] p))
                                    else
                                      (let text = take (SIGBUS_ERROR_MESSAGE_LENGTH env - 1)
                                                    (snprintf env sigbus_format
                                                       [ArgString (b_name b),
                                                        ArgULongLong (b_memorySizeInBytes b),
                                                        ArgString (asStringLiteral_AccessMode env (b_accessMode b)),
                                                        ArgString (asStringLiteral_OpenMode env (b_openMode b)),
                                                        ArgPointer hint,
                                                        ArgUnsigned (b_permissions b)]);
                                           p = add_effects [snprintf_sigbusErrorMessage text]
                                                 (p\<lparr>sigbusErrorMessage := text\<rparr>);
                                           p = add_effects [memset (baseAddress memoryMap) 0
                                                              (unat (b_memorySizeInBytes b))] p
                                       in case memset_sigbus env of
                                            Some k \<Rightarrow>
                                              (Exited EXIT_FAILURE,
                                               memsetSigbusHandler env
                                                 (p\<lparr>memory := zero_fill (baseAddress memoryMap)
                                                                 (min k (unat (b_memorySizeInBytes b)))
                                                                 (memory p)\<rparr>))
                                          | None \<Rightarrow>
                                              (let p = p\<lparr>memory := zero_fill (baseAddress memoryMap)
                                                                      (unat (b_memorySizeInBytes b))
                                                                      (memory p)\<rparr>;
                                                   p = add_effects [restoreSignalHandler_BUS,
                                                                    unlock_sigbusHandlerMutex] p
                                               in (Returned (Inr object), add_log [acquired] p))))
                              else (Returned (Inr object), add_log [acquired] p))
                        else (Returned (Inr object), p))))"

text \<open>The effects of one call of \<^verbatim>\<open>create\<close>, and the base address hint it passes on.\<close>

definition create_effects :: "environment \<Rightarrow> SharedMemoryObjectBuilder \<Rightarrow> process \<Rightarrow> effect list"
  where
  "create_effects env b p =
     drop (length (effects p)) (effects (snd (SharedMemoryObjectBuilder_create env b p)))"

definition hint_or_null :: "SharedMemoryObjectBuilder \<Rightarrow> nat" where
  "hint_or_null b = (case b_baseAddressHint b of Some a \<Rightarrow> a | None \<Rightarrow> 0)"

text \<open>
  \<^verbatim>\<open>SharedMemoryObject::allocate\<close> and \<^verbatim>\<open>finalizeAllocation\<close>. The sizes are
  \<^verbatim>\<open>uint64_t\<close>; the returned pointer is an address, a natural number as in the allocator.
\<close>

definition allocate ::
  "64 word \<Rightarrow> 64 word \<Rightarrow> SharedMemoryObject \<Rightarrow> process
     \<Rightarrow> (SharedMemoryAllocationError + nat) \<times> SharedMemoryObject \<times> process" where
  "allocate size' alignment obj p =
    (if size' = 0 then
       (Inl REQUESTED_ZERO_SIZED_MEMORY, obj,
        add_log [(WARN, [Str ''Cannot allocate memory of size 0.''])] p)
     else if m_allocationFinalized obj then
       (Inl REQUESTED_MEMORY_AFTER_FINALIZED_ALLOCATION, obj,
        add_log [(WARN, [Str ''allocate() call after finalizeAllocation()! Could not acquire shared memory chunk.''])] p)
     else
       case BumpAllocator_allocate (m_allocator obj) (unat size') (unat alignment) of
         (Inl e, A) \<Rightarrow>
           (Inl NOT_ENOUGH_MEMORY, obj\<lparr>m_allocator := A\<rparr>,
            add_log [(WARN, [Str ''Not enough space left in shared memory.''])] p)
       | (Inr allocation, A) \<Rightarrow> (Inr allocation, obj\<lparr>m_allocator := A\<rparr>, p))"

definition finalizeAllocation :: "SharedMemoryObject \<Rightarrow> SharedMemoryObject" where
  "finalizeAllocation obj = obj\<lparr>m_allocationFinalized := True\<rparr>"

definition getBaseAddress :: "SharedMemoryObject \<Rightarrow> nat" where
  "getBaseAddress obj = baseAddress (m_memoryMap obj)"

definition getSizeInBytes :: "SharedMemoryObject \<Rightarrow> 64 word" where
  "getSizeInBytes obj = m_memorySizeInBytes obj"

subsection \<open>Clients\<close>

text \<open>
  What a builder leaves in the object it returns: the allocator spans the mapping, with the
  cached size as its length, and its offset lies within it.
\<close>

definition object_inv :: "SharedMemoryObject \<Rightarrow> bool" where
  "object_inv obj =
     (ba_start (m_allocator obj) = getBaseAddress obj
      \<and> ba_size (m_allocator obj) = unat (getSizeInBytes obj)
      \<and> ba_currentOffset (m_allocator obj) \<le> ba_size (m_allocator obj))"

text \<open>A client calls the two operations of an object in any order.\<close>

datatype operation = Allocate "64 word" "64 word" | FinalizeAllocation

text \<open>The successful allocations of a run, in order: pointer, size and alignment.\<close>

fun allocations :: "operation list \<Rightarrow> SharedMemoryObject \<Rightarrow> process \<Rightarrow> (nat \<times> nat \<times> nat) list"
  where
  "allocations [] obj p = []"
| "allocations (Allocate n a # ops) obj p =
     (case allocate n a obj p of
        (Inr ptr, obj', p') \<Rightarrow> (ptr, unat n, unat a) # allocations ops obj' p'
      | (Inl e, obj', p') \<Rightarrow> allocations ops obj' p')"
| "allocations (FinalizeAllocation # ops) obj p = allocations ops (finalizeAllocation obj) p"

text \<open>The allocator's current offset before the run and after each of its operations.\<close>

fun offsets :: "operation list \<Rightarrow> SharedMemoryObject \<Rightarrow> process \<Rightarrow> nat list" where
  "offsets [] obj p = [ba_currentOffset (m_allocator obj)]"
| "offsets (Allocate n a # ops) obj p =
     ba_currentOffset (m_allocator obj)
       # (case allocate n a obj p of (r, obj', p') \<Rightarrow> offsets ops obj' p')"
| "offsets (FinalizeAllocation # ops) obj p =
     ba_currentOffset (m_allocator obj) # offsets ops (finalizeAllocation obj) p"

text \<open>The results of a run of \<^verbatim>\<open>allocate(size, alignment)\<close> calls, in order.\<close>

fun allocate_all ::
  "(64 word \<times> 64 word) list \<Rightarrow> SharedMemoryObject \<Rightarrow> process
     \<Rightarrow> (SharedMemoryAllocationError + nat) list" where
  "allocate_all [] obj p = []"
| "allocate_all ((n, a) # rs) obj p =
     (case allocate n a obj p of (r, obj', p') \<Rightarrow> r # allocate_all rs obj' p')"

text \<open>Where the events of a trace stand: the position of the first one that satisfies \<open>P\<close>
  (the length of the trace when there is none).\<close>

definition first_pos :: "('a \<Rightarrow> bool) \<Rightarrow> 'a list \<Rightarrow> nat" where
  "first_pos P xs = length (takeWhile (\<lambda>x. \<not> P x) xs)"

fun is_format :: "effect \<Rightarrow> bool" where
  "is_format (snprintf_sigbusErrorMessage t) = True"
| "is_format e = False"

fun is_memset :: "effect \<Rightarrow> bool" where
  "is_memset (memset a v n) = True"
| "is_memset e = False"

definition is_install :: "effect \<Rightarrow> bool" where
  "is_install e = (e = registerSignalHandler_BUS)"

text \<open>An environment, a builder and a process for concrete runs: a 4096-byte segment named
  \<^verbatim>\<open>test_shm\<close>, created and owned by the call and mapped at address 65536.\<close>

definition test_env :: environment where
  "test_env =
     \<lparr>IOX_SHM_WRITE_ZEROS_ON_CREATION = True,
      IOX_MAX_SHM_NAME_LENGTH = 255,
      asStringLiteral_AccessMode = (\<lambda>m. case m of READ_ONLY \<Rightarrow> ''READ_ONLY'' | READ_WRITE \<Rightarrow> ''READ_WRITE''),
      asStringLiteral_OpenMode = (\<lambda>m. ''OpenMode''),
      snprintf = (\<lambda>fmt args. fmt),
      SharedMemoryBuilder_create = (\<lambda>n a m perms s. Some \<lparr>handle = 3, ownership = True\<rparr>),
      MemoryMapBuilder_create = (\<lambda>h s fd a. Some \<lparr>baseAddress = 65536, mappedLength = unat s\<rparr>),
      registerSignalHandler_succeeds = True,
      memset_sigbus = None\<rparr>"

definition test_builder :: SharedMemoryObjectBuilder where
  "test_builder =
     \<lparr>b_name = ''test_shm'', b_memorySizeInBytes = 4096, b_accessMode = READ_WRITE,
      b_openMode = OPEN_OR_CREATE, b_baseAddressHint = None, b_permissions = 432\<rparr>"

definition process0 :: process where
  "process0 = \<lparr>memory = (\<lambda>a. 255), sigbusErrorMessage = [], effects = [], log_entries = []\<rparr>"

definition test_object :: SharedMemoryObject where
  "test_object =
     \<lparr>m_memorySizeInBytes = 4096,
      m_sharedMemory = \<lparr>handle = 3, ownership = True\<rparr>,
      m_memoryMap = \<lparr>baseAddress = 65536, mappedLength = 4096\<rparr>,
      m_allocator = \<lparr>ba_start = 65536, ba_size = 4096, ba_currentOffset = 0\<rparr>,
      m_allocationFinalized = False\<rparr>"

section \<open>Properties\<close>

subsection \<open>The error translator\<close>

lemma convert_cases:
  "fst (convertErrnoToFileLockError E prefix errnum path) =
    (if errnum = EACCES E then ACCESS_DENIED
     else if errnum = EDQUOT E then QUOTA_EXHAUSTED
     else if errnum = EFAULT E then ACCESS_DENIED
     else if errnum = EFBIG E \<or> errnum = EOVERFLOW E then FILE_TOO_LARGE
     else if errnum = ELOOP E then INVALID_FILE_NAME
     else if errnum = EMFILE E then PROCESS_LIMIT
     else if errnum = ENFILE E then SYSTEM_LIMIT
     else if errnum = ENODEV E then ACCESS_DENIED
     else if errnum = ENOENT E then NO_SUCH_DIRECTORY
     else if errnum = ENOMEM E then OUT_OF_MEMORY
     else if errnum = ENOSPC E then QUOTA_EXHAUSTED
     else if errnum = ENOSYS E then SYS_CALL_NOT_IMPLEMENTED
     else if errnum = ENXIO E then SPECIAL_FILE
     else if errnum = EPERM E then ACCESS_DENIED
     else if errnum = EROFS E then INVALID_FILE_NAME
     else if errnum = ETXTBSY E then FILE_IN_USE
     else if errnum = EWOULDBLOCK E then LOCKED_BY_OTHER_PROCESS
     else if errnum = ENOLCK E then SYSTEM_LIMIT
     else if errnum = EIO E then I_O_ERROR
     else INTERNAL_LOGIC_ERROR)"
  unfolding convertErrnoToFileLockError_def by (simp only: if_distrib [of fst] fst_conv)

lemma convert_in_enum:
  "fst (convertErrnoToFileLockError E prefix errnum path) \<in> translated_errors"
  unfolding convert_cases translated_errors_def by simp

lemma convert_default:
  "errnum \<notin> set (case_labels E)
     \<Longrightarrow> fst (convertErrnoToFileLockError E prefix errnum path) = INTERNAL_LOGIC_ERROR"
  unfolding convert_cases case_labels_def by simp

lemma convert_path_irrelevant:
  "fst (convertErrnoToFileLockError E prefix errnum path)
     = fst (convertErrnoToFileLockError E prefix' errnum path')"
  unfolding convert_cases by (rule refl)

text \<open>
  Claim C9. The error translator is a total function of the OS error code: for every
  \<open>errnum\<close> the returned error is a member of the closed enumeration the specification
  lists; every code that is none of the case labels gives \<open>INTERNAL_LOGIC_ERROR\<close>; and
  the returned error is the same whatever the path (and the path prefix used in one log
  entry) is.
\<close>

theorem convertErrnoToFileLockError_total:
  "fst (convertErrnoToFileLockError E prefix errnum path) \<in> translated_errors
   \<and> (errnum \<notin> set (case_labels E)
        \<longrightarrow> fst (convertErrnoToFileLockError E prefix errnum path) = INTERNAL_LOGIC_ERROR)
   \<and> fst (convertErrnoToFileLockError E prefix errnum path)
       = fst (convertErrnoToFileLockError E prefix' errnum path')"
  using convert_in_enum convert_default convert_path_irrelevant by blast

theorem convertErrnoToFileLockError_total_witness:
  "9999 \<notin> set (case_labels linux_errnos)
   \<and> fst (convertErrnoToFileLockError linux_errnos ''/tmp/'' 9999 ''/tmp/a.lock'')
       = INTERNAL_LOGIC_ERROR"
  using convertErrnoToFileLockError_total [of linux_errnos "''/tmp/''" 9999 "''/tmp/a.lock''"]
  by (simp add: case_labels_def linux_errnos_def)

subsection \<open>Allocation from a shared memory object\<close>

text \<open>
  Claim C1. For every shared memory object, whatever its allocator has handed out and whether
  or not \<open>finalizeAllocation\<close> was called, and for every alignment, \<open>allocate(0, alignment)\<close>
  returns \<open>REQUESTED_ZERO_SIZED_MEMORY\<close>; the object, the memory, the diagnostic buffer and
  the effects are as before, and one warning is logged.
\<close>

theorem allocate_zero_size:
  "allocate 0 alignment obj p
     = (Inl REQUESTED_ZERO_SIZED_MEMORY, obj,
        p\<lparr>log_entries := log_entries p @ [(WARN, [Str ''Cannot allocate memory of size 0.''])]\<rparr>)
   \<and> fst (allocate 0 alignment (finalizeAllocation obj) p) = Inl REQUESTED_ZERO_SIZED_MEMORY"
  by (simp add: allocate_def add_log_def)

lemma allocate_finalized:
  "m_allocationFinalized obj \<Longrightarrow> size' \<noteq> 0 \<Longrightarrow>
   allocate size' alignment obj p
     = (Inl REQUESTED_MEMORY_AFTER_FINALIZED_ALLOCATION, obj,
        p\<lparr>log_entries := log_entries p
             @ [(WARN, [Str ''allocate() call after finalizeAllocation()! Could not acquire shared memory chunk.''])]\<rparr>)"
  by (simp add: allocate_def add_log_def)

lemma allocate_all_finalized:
  "m_allocationFinalized obj \<Longrightarrow> \<forall>(n, a) \<in> set rs. n \<noteq> 0 \<Longrightarrow>
   allocate_all rs obj p = replicate (length rs) (Inl REQUESTED_MEMORY_AFTER_FINALIZED_ALLOCATION)"
  by (induction rs arbitrary: p) (auto simp: allocate_finalized)

text \<open>
  Claim C2, as amended. After \<open>finalizeAllocation\<close> the object is finalized, and on a
  finalized object every \<open>allocate(size, alignment)\<close> with a size other than 0 fails with
  \<open>REQUESTED_MEMORY_AFTER_FINALIZED_ALLOCATION\<close>, for every alignment; the object (with the
  allocator's offset, so every pointer handed out before), the memory, the diagnostic buffer
  and the effects are as before, and one warning is logged. So does every call of a run of
  such calls after \<open>finalizeAllocation\<close>. (A size of 0 is answered with
  \<open>REQUESTED_ZERO_SIZED_MEMORY\<close>, finalized or not: the size is checked first.)
\<close>

theorem allocate_after_finalizeAllocation:
  "m_allocationFinalized (finalizeAllocation obj0)
   \<and> (m_allocationFinalized obj \<and> size' \<noteq> 0 \<longrightarrow>
        allocate size' alignment obj p
          = (Inl REQUESTED_MEMORY_AFTER_FINALIZED_ALLOCATION, obj,
             p\<lparr>log_entries := log_entries p
                  @ [(WARN, [Str ''allocate() call after finalizeAllocation()! Could not acquire shared memory chunk.''])]\<rparr>))
   \<and> ((\<forall>(n, a) \<in> set rs. n \<noteq> 0) \<longrightarrow>
        allocate_all rs (finalizeAllocation obj0) p
          = replicate (length rs) (Inl REQUESTED_MEMORY_AFTER_FINALIZED_ALLOCATION))"
  by (simp add: allocate_finalized allocate_all_finalized finalizeAllocation_def)

theorem allocate_after_finalizeAllocation_witness:
  "m_allocationFinalized (finalizeAllocation test_object) \<and> (64 :: 64 word) \<noteq> 0
   \<and> (32 :: 64 word) \<noteq> 0
   \<and> fst (allocate 64 8 (finalizeAllocation test_object) process0)
       = Inl REQUESTED_MEMORY_AFTER_FINALIZED_ALLOCATION
   \<and> fst (snd (allocate 64 8 (finalizeAllocation test_object) process0))
       = finalizeAllocation test_object
   \<and> memory (snd (snd (allocate 64 8 (finalizeAllocation test_object) process0)))
       = memory process0
   \<and> allocate_all [(64, 8), (32, 4)] (finalizeAllocation test_object) process0
       = [Inl REQUESTED_MEMORY_AFTER_FINALIZED_ALLOCATION,
          Inl REQUESTED_MEMORY_AFTER_FINALIZED_ALLOCATION]"
  using allocate_after_finalizeAllocation
          [of test_object "finalizeAllocation test_object" 64 8 process0 "[(64, 8), (32, 4)]"]
  by (simp add: finalizeAllocation_def allocate_def add_log_def)

theorem allocate_after_finalizeAllocation_counterexample:
  "fst (allocate 0 8 (finalizeAllocation test_object) process0) = Inl REQUESTED_ZERO_SIZED_MEMORY
   \<and> fst (allocate 0 8 (finalizeAllocation test_object) process0)
       \<noteq> Inl REQUESTED_MEMORY_AFTER_FINALIZED_ALLOCATION"
  by (simp add: allocate_def)

lemma align_up_ge: "address \<le> align_up address a"
proof (cases "a = 0")
  case True
  then show ?thesis by (simp add: align_up_def)
next
  case False
  then have pos: "0 < a" by simp
  have "address + a - 1 = (address + a - 1) div a * a + (address + a - 1) mod a"
    by simp
  moreover have "(address + a - 1) mod a \<le> a - 1"
    using pos by (metis Suc_pred' less_Suc_eq_le mod_less_divisor)
  ultimately have "address + a - 1 \<le> (address + a - 1) div a * a + (a - 1)"
    by linarith
  then have "address \<le> (address + a - 1) div a * a"
    using pos by linarith
  then show ?thesis using False by (simp add: align_up_def)
qed

lemma align_up_dvd: "a \<noteq> 0 \<Longrightarrow> a dvd align_up address a"
  by (simp add: align_up_def)

lemma BumpAllocator_allocate_Inr:
  assumes "BumpAllocator_allocate A n al = (Inr ptr, A')"
  shows "ba_start A + ba_currentOffset A \<le> ptr
         \<and> ptr + n = ba_start A + ba_currentOffset A'
         \<and> ba_currentOffset A' \<le> ba_size A
         \<and> ba_start A' = ba_start A \<and> ba_size A' = ba_size A
         \<and> (al \<noteq> 0 \<longrightarrow> al dvd ptr)"
proof -
  let ?p = "align_up (ba_start A + ba_currentOffset A) al"
  have ge: "ba_start A + ba_currentOffset A \<le> ?p" by (rule align_up_ge)
  from assms have le: "?p - ba_start A + n \<le> ba_size A"
    and p: "ptr = ?p" and A': "A' = A\<lparr>ba_currentOffset := ?p - ba_start A + n\<rparr>"
    by (auto simp: BumpAllocator_allocate_def Let_def split: if_splits)
  show ?thesis using ge le p A' align_up_dvd [of al] by auto
qed

lemma BumpAllocator_allocate_Inl:
  "BumpAllocator_allocate A n al = (Inl e, A') \<Longrightarrow>
     A' = A \<and> ba_size A < align_up (ba_start A + ba_currentOffset A) al - ba_start A + n"
  by (auto simp: BumpAllocator_allocate_def Let_def split: if_splits)

lemma BumpAllocator_allocate_too_large:
  "ba_size A - ba_currentOffset A < n \<Longrightarrow> \<exists>e. BumpAllocator_allocate A n al = (Inl e, A)"
proof -
  assume a: "ba_size A - ba_currentOffset A < n"
  have "ba_start A + ba_currentOffset A \<le> align_up (ba_start A + ba_currentOffset A) al"
    by (rule align_up_ge)
  with a have "\<not> align_up (ba_start A + ba_currentOffset A) al - ba_start A + n \<le> ba_size A"
    by linarith
  then show ?thesis by (simp add: BumpAllocator_allocate_def Let_def)
qed

text \<open>One call of allocate.\<close>

lemma allocate_Inl_unchanged:
  "allocate n a obj p = (Inl e, obj', p') \<Longrightarrow>
     obj' = obj \<and> memory p' = memory p \<and> sigbusErrorMessage p' = sigbusErrorMessage p
     \<and> effects p' = effects p"
  by (auto simp: allocate_def add_log_def split: if_splits prod.splits sum.splits
           dest: BumpAllocator_allocate_Inl)

lemma allocate_Inr:
  assumes "object_inv obj" and "allocate n a obj p = (Inr ptr, obj', p')"
  shows "p' = p
         \<and> getBaseAddress obj' = getBaseAddress obj \<and> getSizeInBytes obj' = getSizeInBytes obj
         \<and> m_allocationFinalized obj' = m_allocationFinalized obj
         \<and> object_inv obj'
         \<and> \<not> m_allocationFinalized obj \<and> n \<noteq> 0
         \<and> getBaseAddress obj + ba_currentOffset (m_allocator obj) \<le> ptr
         \<and> ptr + unat n = getBaseAddress obj + ba_currentOffset (m_allocator obj')
         \<and> ba_currentOffset (m_allocator obj') \<le> unat (getSizeInBytes obj)
         \<and> (unat a \<noteq> 0 \<longrightarrow> unat a dvd ptr)"
proof -
  from assms(2) obtain A' where
    b: "BumpAllocator_allocate (m_allocator obj) (unat n) (unat a) = (Inr ptr, A')"
    and o: "obj' = obj\<lparr>m_allocator := A'\<rparr>" and pp: "p' = p"
    and nf: "\<not> m_allocationFinalized obj" and n0: "n \<noteq> 0"
    by (auto simp: allocate_def split: if_splits prod.splits sum.splits)
  from BumpAllocator_allocate_Inr [OF b] assms(1) o pp nf n0 show ?thesis
    by (simp add: object_inv_def getBaseAddress_def getSizeInBytes_def)
qed

lemma allocate_inv:
  assumes "object_inv obj" and "allocate n a obj p = (r, obj', p')"
  shows "getBaseAddress obj' = getBaseAddress obj \<and> getSizeInBytes obj' = getSizeInBytes obj
         \<and> object_inv obj'
         \<and> ba_currentOffset (m_allocator obj) \<le> ba_currentOffset (m_allocator obj')"
proof (cases r)
  case (Inl e)
  with assms show ?thesis by (auto dest: allocate_Inl_unchanged)
next
  case (Inr ptr)
  with assms allocate_Inr [of obj n a p ptr obj' p'] show ?thesis by auto
qed

lemma finalize_inv:
  "object_inv obj \<Longrightarrow> object_inv (finalizeAllocation obj)
     \<and> getBaseAddress (finalizeAllocation obj) = getBaseAddress obj
     \<and> getSizeInBytes (finalizeAllocation obj) = getSizeInBytes obj
     \<and> ba_currentOffset (m_allocator (finalizeAllocation obj)) = ba_currentOffset (m_allocator obj)"
  by (simp add: object_inv_def finalizeAllocation_def getBaseAddress_def getSizeInBytes_def)


lemma allocations_bounds:
  "object_inv obj \<Longrightarrow> (ptr, n, a) \<in> set (allocations ops obj p) \<Longrightarrow>
     getBaseAddress obj + ba_currentOffset (m_allocator obj) \<le> ptr
     \<and> ptr + n \<le> getBaseAddress obj + unat (getSizeInBytes obj)
     \<and> 0 < n \<and> (a \<noteq> 0 \<longrightarrow> a dvd ptr)"
proof (induction ops arbitrary: obj p)
  case Nil
  then show ?case by simp
next
  case (Cons op ops)
  show ?case
  proof (cases op)
    case FinalizeAllocation
    with Cons.prems have "(ptr, n, a) \<in> set (allocations ops (finalizeAllocation obj) p)"
      by simp
    with Cons.IH [of "finalizeAllocation obj" p] finalize_inv [OF Cons.prems(1)]
    show ?thesis by simp
  next
    case (Allocate n' a')
    obtain r obj' p' where al: "allocate n' a' obj p = (r, obj', p')"
      by (cases "allocate n' a' obj p") auto
    note inv = allocate_inv [OF Cons.prems(1) al]
    have tail: "(ptr, n, a) \<in> set (allocations ops obj' p') \<Longrightarrow> ?thesis"
    proof -
      assume "(ptr, n, a) \<in> set (allocations ops obj' p')"
      with Cons.IH [of obj' p'] inv
      have "getBaseAddress obj' + ba_currentOffset (m_allocator obj') \<le> ptr
            \<and> ptr + n \<le> getBaseAddress obj' + unat (getSizeInBytes obj')
            \<and> 0 < n \<and> (a \<noteq> 0 \<longrightarrow> a dvd ptr)"
        by blast
      with inv show ?thesis by simp
    qed
    show ?thesis
    proof (cases r)
      case (Inl e)
      with Allocate al Cons.prems(2) tail show ?thesis by simp
    next
      case (Inr q)
      with al have al': "allocate n' a' obj p = (Inr q, obj', p')" by simp
      note h = allocate_Inr [OF Cons.prems(1) al']
      have "q + unat n' \<le> getBaseAddress obj + unat (getSizeInBytes obj)"
        using h by simp
      moreover have "0 < unat n'" using h by (simp add: unat_gt_0)
      ultimately have head: "(ptr, n, a) = (q, unat n', unat a') \<Longrightarrow> ?thesis"
        using h by simp
      from Allocate al' Cons.prems(2)
      have "(ptr, n, a) = (q, unat n', unat a') \<or> (ptr, n, a) \<in> set (allocations ops obj' p')"
        by simp
      with head tail show ?thesis by blast
    qed
  qed
qed

lemma allocations_sorted:
  "object_inv obj \<Longrightarrow>
   sorted_wrt (\<lambda>(p1, n1, a1) (p2, n2, a2). p1 + n1 \<le> p2) (allocations ops obj p)"
proof (induction ops arbitrary: obj p)
  case Nil
  then show ?case by simp
next
  case (Cons op ops)
  show ?case
  proof (cases op)
    case FinalizeAllocation
    have "object_inv (finalizeAllocation obj)" using finalize_inv [OF Cons.prems] by simp
    from Cons.IH [OF this, of p] FinalizeAllocation show ?thesis by simp
  next
    case (Allocate n a)
    obtain r obj' p' where al: "allocate n a obj p = (r, obj', p')"
      by (cases "allocate n a obj p") auto
    have inv': "object_inv obj'" using allocate_inv [OF Cons.prems al] by simp
    note tail = Cons.IH [OF inv', of p']
    show ?thesis
    proof (cases r)
      case (Inl e)
      with Allocate al tail show ?thesis by simp
    next
      case (Inr ptr)
      with al have al': "allocate n a obj p = (Inr ptr, obj', p')" by simp
      note h = allocate_Inr [OF Cons.prems al']
      have "\<forall>x \<in> set (allocations ops obj' p'). case x of (p2, n2, a2) \<Rightarrow> ptr + unat n \<le> p2"
      proof
        fix x assume x: "x \<in> set (allocations ops obj' p')"
        obtain p2 n2 a2 where "x = (p2, n2, a2)" by (cases x)
        with x allocations_bounds [OF inv', of p2 n2 a2 ops p'] h
        show "case x of (p2, n2, a2) \<Rightarrow> ptr + unat n \<le> p2" by simp
      qed
      with Allocate al' tail show ?thesis by simp
    qed
  qed
qed

lemma offsets_lower:
  "object_inv obj \<Longrightarrow>
   sorted (offsets ops obj p)
   \<and> (\<forall>y \<in> set (offsets ops obj p). ba_currentOffset (m_allocator obj) \<le> y)"
proof (induction ops arbitrary: obj p)
  case Nil
  then show ?case by simp
next
  case (Cons op ops)
  show ?case
  proof (cases op)
    case FinalizeAllocation
    with Cons.IH [of "finalizeAllocation obj" p] finalize_inv [OF Cons.prems]
    show ?thesis by simp
  next
    case (Allocate n a)
    obtain r obj' p' where al: "allocate n a obj p = (r, obj', p')"
      by (cases "allocate n a obj p") auto
    note inv = allocate_inv [OF Cons.prems al]
    from Cons.IH [of obj' p'] inv
    have "sorted (offsets ops obj' p')"
      and "\<forall>y \<in> set (offsets ops obj' p'). ba_currentOffset (m_allocator obj) \<le> y"
      by auto
    with Allocate al show ?thesis by simp
  qed
qed

lemma allocate_error_kind:
  "n \<noteq> 0 \<Longrightarrow> \<not> m_allocationFinalized obj \<Longrightarrow> allocate n a obj p = (Inl e, obj', p')
     \<Longrightarrow> e = NOT_ENOUGH_MEMORY"
  by (auto simp: allocate_def split: if_splits prod.splits sum.splits)

lemma allocate_too_large:
  assumes "n \<noteq> 0" and "\<not> m_allocationFinalized obj"
    and "ba_size (m_allocator obj) - ba_currentOffset (m_allocator obj) < unat n"
  shows "fst (allocate n a obj p) = Inl NOT_ENOUGH_MEMORY"
proof -
  from BumpAllocator_allocate_too_large [OF assms(3)] obtain e where
    "BumpAllocator_allocate (m_allocator obj) (unat n) (unat a) = (Inl e, m_allocator obj)"
    by blast
  with assms(1,2) show ?thesis by (simp add: allocate_def)
qed

lemma allocate_all_exhausts:
  "object_inv obj \<Longrightarrow> \<not> m_allocationFinalized obj \<Longrightarrow>
   unat (getSizeInBytes obj) - ba_currentOffset (m_allocator obj)
     < sum_list (map (\<lambda>(n, a). unat n) rs) \<Longrightarrow>
   Inl NOT_ENOUGH_MEMORY \<in> set (allocate_all rs obj p)"
proof (induction rs arbitrary: obj p)
  case Nil
  then show ?case by simp
next
  case (Cons x rs)
  obtain n a where x: "x = (n, a)" by (cases x)
  obtain r obj' p' where al: "allocate n a obj p = (r, obj', p')"
    by (cases "allocate n a obj p") auto
  let ?S = "sum_list (map (\<lambda>(n, a). unat n) rs)"
  show ?case
  proof (cases "n = 0")
    case True
    with al have same: "obj' = obj" by (simp add: allocate_def)
    have prem: "unat (getSizeInBytes obj) - ba_currentOffset (m_allocator obj) < ?S"
      using Cons.prems(3) x True by simp
    have "Inl NOT_ENOUGH_MEMORY \<in> set (allocate_all rs obj p')"
      by (rule Cons.IH [OF Cons.prems(1) Cons.prems(2) prem])
    with al x same show ?thesis by simp
  next
    case False
    show ?thesis
    proof (cases r)
      case (Inl e)
      with al allocate_error_kind [OF False Cons.prems(2), of a p e obj' p']
      show ?thesis using x by simp
    next
      case (Inr ptr)
      with al have al': "allocate n a obj p = (Inr ptr, obj', p')" by simp
      note h = allocate_Inr [OF Cons.prems(1) al']
      have size_eq: "unat (getSizeInBytes obj') = unat (getSizeInBytes obj)" using h by simp
      have le: "ba_currentOffset (m_allocator obj') \<le> unat (getSizeInBytes obj)"
        using h by simp
      have adv: "ba_currentOffset (m_allocator obj) + unat n
                   \<le> ba_currentOffset (m_allocator obj')"
        using h by linarith
      have prem: "unat (getSizeInBytes obj) - ba_currentOffset (m_allocator obj) < unat n + ?S"
        using Cons.prems(3) x by simp
      have i3: "unat (getSizeInBytes obj') - ba_currentOffset (m_allocator obj') < ?S"
        using size_eq le adv prem by linarith
      have i1: "object_inv obj'" and i2: "\<not> m_allocationFinalized obj'" using h by simp_all
      have "Inl NOT_ENOUGH_MEMORY \<in> set (allocate_all rs obj' p')"
        by (rule Cons.IH [OF i1 i2 i3])
      with al' x show ?thesis by simp
    qed
  qed
qed


lemma allocate_NOT_ENOUGH_MEMORY_unchanged:
  "fst (allocate n a obj p) = Inl NOT_ENOUGH_MEMORY \<Longrightarrow>
   snd (allocate n a obj p)
     = (obj, p\<lparr>log_entries := log_entries p
                  @ [(WARN, [Str ''Not enough space left in shared memory.''])]\<rparr>)"
  by (auto simp: allocate_def add_log_def split: if_splits prod.splits sum.splits
           dest: BumpAllocator_allocate_Inl)

lemma create_object_inv:
  "SharedMemoryObjectBuilder_create env b p = (Returned (Inr obj), p') \<Longrightarrow>
     object_inv obj \<and> \<not> m_allocationFinalized obj \<and> ba_currentOffset (m_allocator obj) = 0
     \<and> getSizeInBytes obj = b_memorySizeInBytes b"
  by (auto simp: SharedMemoryObjectBuilder_create_def Let_def object_inv_def
                 BumpAllocator_new_def getBaseAddress_def getSizeInBytes_def
           split: option.splits if_splits)

text \<open>
  Claim C7, as amended. On an object as a builder leaves it (the allocator spans the region
  of \<open>sizeInBytes\<close>) on which \<open>finalizeAllocation\<close> has not been called: a run of
  \<open>allocate\<close> calls whose sizes add up to more than the remaining capacity contains a call
  that returns \<open>NOT_ENOUGH_MEMORY\<close>; a single call that asks for more than the remaining
  capacity returns \<open>NOT_ENOUGH_MEMORY\<close>; and a call that returns \<open>NOT_ENOUGH_MEMORY\<close>
  leaves the object (with the allocator's offset), the memory, the diagnostic buffer and the
  effects as they were, logging one warning. (On a finalized object the same request is
  answered with \<open>REQUESTED_MEMORY_AFTER_FINALIZED_ALLOCATION\<close>: the flag is checked before
  the allocator is asked.)
\<close>

theorem allocate_not_enough_memory:
  assumes "object_inv obj" and "\<not> m_allocationFinalized obj"
  shows "(unat (getSizeInBytes obj) - ba_currentOffset (m_allocator obj)
            < sum_list (map (\<lambda>(n, a). unat n) rs)
          \<longrightarrow> Inl NOT_ENOUGH_MEMORY \<in> set (allocate_all rs obj p))
       \<and> (unat (getSizeInBytes obj) - ba_currentOffset (m_allocator obj) < unat n
          \<longrightarrow> fst (allocate n a obj p) = Inl NOT_ENOUGH_MEMORY)
       \<and> (fst (allocate n a obj p) = Inl NOT_ENOUGH_MEMORY
          \<longrightarrow> snd (allocate n a obj p)
                = (obj, p\<lparr>log_entries := log_entries p
                             @ [(WARN, [Str ''Not enough space left in shared memory.''])]\<rparr>))"
proof (intro conjI impI)
  assume "unat (getSizeInBytes obj) - ba_currentOffset (m_allocator obj)
            < sum_list (map (\<lambda>(n, a). unat n) rs)"
  with assms show "Inl NOT_ENOUGH_MEMORY \<in> set (allocate_all rs obj p)"
    by (rule allocate_all_exhausts)
next
  assume big: "unat (getSizeInBytes obj) - ba_currentOffset (m_allocator obj) < unat n"
  then have "unat n \<noteq> 0" by simp
  then have n0: "n \<noteq> 0" by (simp add: unat_eq_0)
  from big assms(1)
  have "ba_size (m_allocator obj) - ba_currentOffset (m_allocator obj) < unat n"
    by (simp add: object_inv_def)
  with n0 assms(2) show "fst (allocate n a obj p) = Inl NOT_ENOUGH_MEMORY"
    by (rule allocate_too_large)
next
  assume "fst (allocate n a obj p) = Inl NOT_ENOUGH_MEMORY"
  then show "snd (allocate n a obj p)
                = (obj, p\<lparr>log_entries := log_entries p
                             @ [(WARN, [Str ''Not enough space left in shared memory.''])]\<rparr>)"
    by (rule allocate_NOT_ENOUGH_MEMORY_unchanged)
qed

lemma test_object_inv: "object_inv test_object \<and> \<not> m_allocationFinalized test_object"
  by (simp add: object_inv_def test_object_def getBaseAddress_def getSizeInBytes_def)

theorem allocate_not_enough_memory_witness:
  "object_inv test_object \<and> \<not> m_allocationFinalized test_object
   \<and> unat (getSizeInBytes test_object) - ba_currentOffset (m_allocator test_object)
        < sum_list (map (\<lambda>(n, a). unat n)
            [(4000 :: 64 word, 8 :: 64 word), (0, 8), (200, 8)])
   \<and> unat (getSizeInBytes test_object) - ba_currentOffset (m_allocator test_object)
        < unat (5000 :: 64 word)
   \<and> Inl NOT_ENOUGH_MEMORY
        \<in> set (allocate_all [(4000, 8), (0, 8), (200, 8)] test_object process0)
   \<and> fst (allocate 5000 8 test_object process0) = Inl NOT_ENOUGH_MEMORY
   \<and> fst (snd (allocate 5000 8 test_object process0)) = test_object
   \<and> memory (snd (snd (allocate 5000 8 test_object process0))) = memory process0"
proof -
  have size: "unat (getSizeInBytes test_object) - ba_currentOffset (m_allocator test_object) = 4096"
    by (simp add: test_object_def getSizeInBytes_def)
  note t = allocate_not_enough_memory
             [of test_object "[(4000, 8), (0, 8), (200, 8)]" process0 5000 8,
              OF test_object_inv [THEN conjunct1] test_object_inv [THEN conjunct2]]
  have seq: "Inl NOT_ENOUGH_MEMORY
               \<in> set (allocate_all [(4000, 8), (0, 8), (200, 8)] test_object process0)"
    using t size by simp
  have one: "fst (allocate 5000 8 test_object process0) = Inl NOT_ENOUGH_MEMORY"
    using t size by simp
  with t have "snd (allocate 5000 8 test_object process0)
                = (test_object, process0\<lparr>log_entries := log_entries process0
                     @ [(WARN, [Str ''Not enough space left in shared memory.''])]\<rparr>)"
    by blast
  then have unch: "fst (snd (allocate 5000 8 test_object process0)) = test_object
      \<and> memory (snd (snd (allocate 5000 8 test_object process0))) = memory process0"
    by simp
  show ?thesis using test_object_inv size seq one unch by simp
qed

theorem allocate_not_enough_memory_counterexample:
  "object_inv (finalizeAllocation test_object)
   \<and> unat (getSizeInBytes (finalizeAllocation test_object))
        - ba_currentOffset (m_allocator (finalizeAllocation test_object))
      < unat (5000 :: 64 word)
   \<and> fst (allocate 5000 8 (finalizeAllocation test_object) process0)
       = Inl REQUESTED_MEMORY_AFTER_FINALIZED_ALLOCATION
   \<and> fst (allocate 5000 8 (finalizeAllocation test_object) process0) \<noteq> Inl NOT_ENOUGH_MEMORY"
  by (simp add: allocate_def finalizeAllocation_def object_inv_def test_object_def
                getBaseAddress_def getSizeInBytes_def)

text \<open>
  Claim C8. For every run of \<open>allocate\<close> and \<open>finalizeAllocation\<close> calls on an object
  as a builder leaves it: the successful allocations, in the order they are returned, do not
  overlap (a later pointer is at least an earlier pointer plus its size); every allocated
  range lies within \<open>[base, base + size)\<close>; every returned pointer is a multiple of the
  requested alignment (where one is requested: an alignment of 0 asks for none); and the
  allocator's current offset never decreases from one operation to the next.
\<close>

theorem allocations_never_overlap:
  assumes "object_inv obj"
  shows "sorted_wrt (\<lambda>(p1, n1, a1) (p2, n2, a2). p1 + n1 \<le> p2) (allocations ops obj p)
       \<and> (\<forall>(ptr, n, a) \<in> set (allocations ops obj p).
            getBaseAddress obj \<le> ptr
            \<and> ptr + n \<le> getBaseAddress obj + unat (getSizeInBytes obj)
            \<and> 0 < n \<and> (a \<noteq> 0 \<longrightarrow> a dvd ptr))
       \<and> sorted (offsets ops obj p)"
proof (intro conjI ballI)
  show "sorted_wrt (\<lambda>(p1, n1, a1) (p2, n2, a2). p1 + n1 \<le> p2) (allocations ops obj p)"
    using assms by (rule allocations_sorted)
next
  fix x assume x: "x \<in> set (allocations ops obj p)"
  obtain ptr n a where "x = (ptr, n, a)" by (cases x)
  with x allocations_bounds [OF assms, of ptr n a ops p]
  show "case x of (ptr, n, a) \<Rightarrow>
          getBaseAddress obj \<le> ptr
          \<and> ptr + n \<le> getBaseAddress obj + unat (getSizeInBytes obj)
          \<and> 0 < n \<and> (a \<noteq> 0 \<longrightarrow> a dvd ptr)"
    by simp
next
  show "sorted (offsets ops obj p)" using offsets_lower [OF assms] by simp
qed

lemma test_run:
  "allocations [Allocate 64 8, Allocate 3 1, Allocate 64 8, FinalizeAllocation, Allocate 1 1]
      test_object process0 = [(65536, 64, 8), (65600, 3, 1), (65608, 64, 8)]
   \<and> offsets [Allocate 64 8, Allocate 3 1, Allocate 64 8, FinalizeAllocation, Allocate 1 1]
      test_object process0 = [0, 64, 67, 136, 136, 136]"
  by (simp add: allocate_def test_object_def BumpAllocator_allocate_def align_up_def Let_def
                finalizeAllocation_def add_log_def)

theorem allocations_never_overlap_witness:
  "object_inv test_object \<and> (8 :: nat) \<noteq> 0 \<and> (8 :: nat) dvd 65536
   \<and> allocations [Allocate 64 8, Allocate 3 1, Allocate 64 8, FinalizeAllocation, Allocate 1 1]
        test_object process0 = [(65536, 64, 8), (65600, 3, 1), (65608, 64, 8)]
   \<and> sorted_wrt (\<lambda>(p1, n1, a1) (p2, n2, a2). p1 + n1 \<le> p2)
        (allocations [Allocate 64 8, Allocate 3 1, Allocate 64 8, FinalizeAllocation, Allocate 1 1]
           test_object process0)
   \<and> sorted (offsets [Allocate 64 8, Allocate 3 1, Allocate 64 8, FinalizeAllocation, Allocate 1 1]
                test_object process0)"
  using allocations_never_overlap
          [of test_object
              "[Allocate 64 8, Allocate 3 1, Allocate 64 8, FinalizeAllocation, Allocate 1 1]"
              process0]
        test_object_inv test_run
  by simp

subsection \<open>The file lock\<close>

lemma cleanup_step_eq:
  assumes "sys c (os w) = (r, s)"
  shows "cleanup_step E P sys c path entry (failed, w)
           = (failed \<or> isl r,
              w\<lparr>calls := calls w @ [c], os := s,
                logs := logs w @ (case r of
                          Inl errnum \<Rightarrow>
                            snd (convertErrnoToFileLockError E (IOX_LOCK_FILE_PATH_PREFIX P)
                                   errnum path) @ [entry]
                        | Inr v \<Rightarrow> [])\<rparr>)"
  using assms by (cases r) (simp_all add: cleanup_step_def posixCall_def add_logs_def)

lemma cleanup_step_fields:
  assumes "sys c (os w) = (r, s)"
  shows "fst (cleanup_step E P sys c path entry (failed, w)) = (failed \<or> isl r)"
    and "calls (snd (cleanup_step E P sys c path entry (failed, w))) = calls w @ [c]"
    and "os (snd (cleanup_step E P sys c path entry (failed, w))) = s"
    and "heap (snd (cleanup_step E P sys c path entry (failed, w))) = heap w"
  by (simp_all add: cleanup_step_eq [where sys = sys and c = c and w = w, OF assms])

lemma closeFileDescriptor_invalid:
  "m_fd (heap w this) = INVALID_FD \<Longrightarrow> closeFileDescriptor E P sys this w = (Inr (), w)"
  by (simp add: closeFileDescriptor_def)

lemma closeFileDescriptor_valid:
  assumes v: "m_fd (heap w this) \<noteq> INVALID_FD"
    and c1: "sys (iox_flock (m_fd (heap w this)) UNLOCK) (os w) = (r1, s1)"
    and c2: "sys (iox_close (m_fd (heap w this))) s1 = (r2, s2)"
    and c3: "sys (remove (m_fileLockPath (heap w this))) s2 = (r3, s3)"
  shows "calls (snd (closeFileDescriptor E P sys this w))
           = calls w @ [iox_flock (m_fd (heap w this)) UNLOCK, iox_close (m_fd (heap w this)),
                        remove (m_fileLockPath (heap w this))]
         \<and> os (snd (closeFileDescriptor E P sys this w)) = s3
         \<and> heap (snd (closeFileDescriptor E P sys this w)) = heap w
         \<and> fst (closeFileDescriptor E P sys this w)
             = (if isl r1 \<or> isl r2 \<or> isl r3 then Inl INTERNAL_LOGIC_ERROR else Inr ())"
proof -
  let ?fd = "m_fd (heap w this)" and ?path = "m_fileLockPath (heap w this)"
  let ?e1 = "(ERROR, [Str (''Unable to unlock the file lock '' @ dq), Str ?path, Str dq])"
  let ?e2 = "(ERROR, [Str (''Unable to close the file handle to the file lock '' @ dq),
                      Str ?path, Str dq])"
  let ?e3 = "(ERROR, [Str (''Unable to remove the file lock '' @ dq), Str ?path, Str dq])"
  obtain f1 w1 where st1: "cleanup_step E P sys (iox_flock ?fd UNLOCK) ?path ?e1 (False, w) = (f1, w1)"
    by (cases "cleanup_step E P sys (iox_flock ?fd UNLOCK) ?path ?e1 (False, w)") auto
  from cleanup_step_fields
         [where sys = sys and c = "iox_flock ?fd UNLOCK" and w = w, OF c1, of E P ?path ?e1 False]
       st1
  have 1: "f1 = isl r1" "calls w1 = calls w @ [iox_flock ?fd UNLOCK]" "os w1 = s1" "heap w1 = heap w"
    by simp_all
  obtain f2 w2 where st2: "cleanup_step E P sys (iox_close ?fd) ?path ?e2 (f1, w1) = (f2, w2)"
    by (cases "cleanup_step E P sys (iox_close ?fd) ?path ?e2 (f1, w1)") auto
  from c2 1 have c2': "sys (iox_close ?fd) (os w1) = (r2, s2)" by simp
  from cleanup_step_fields
         [where sys = sys and c = "iox_close ?fd" and w = w1, OF c2', of E P ?path ?e2 f1]
       st2 1
  have 2: "f2 = (isl r1 \<or> isl r2)" "calls w2 = calls w @ [iox_flock ?fd UNLOCK, iox_close ?fd]"
    "os w2 = s2" "heap w2 = heap w"
    by simp_all
  obtain f3 w3 where st3: "cleanup_step E P sys (remove ?path) ?path ?e3 (f2, w2) = (f3, w3)"
    by (cases "cleanup_step E P sys (remove ?path) ?path ?e3 (f2, w2)") auto
  from c3 2 have c3': "sys (remove ?path) (os w2) = (r3, s3)" by simp
  from cleanup_step_fields
         [where sys = sys and c = "remove ?path" and w = w2, OF c3', of E P ?path ?e3 f2]
       st3 2
  have 3: "f3 = (isl r1 \<or> isl r2 \<or> isl r3)"
    "calls w3 = calls w @ [iox_flock ?fd UNLOCK, iox_close ?fd, remove ?path]"
    "os w3 = s3" "heap w3 = heap w"
    by simp_all
  have "closeFileDescriptor E P sys this w
          = (if f3 then (Inl INTERNAL_LOGIC_ERROR, w3) else (Inr (), w3))"
    using v st1 st2 st3 by (simp add: closeFileDescriptor_def Let_def)
  with 3 show ?thesis by simp
qed


lemma closeFileDescriptor_heap:
  "heap (snd (closeFileDescriptor E P sys this w)) = heap w"
proof (cases "m_fd (heap w this) = INVALID_FD")
  case True
  then show ?thesis by (simp add: closeFileDescriptor_invalid)
next
  case False
  obtain r1 s1 where c1: "sys (iox_flock (m_fd (heap w this)) UNLOCK) (os w) = (r1, s1)"
    by (cases "sys (iox_flock (m_fd (heap w this)) UNLOCK) (os w)") auto
  obtain r2 s2 where c2: "sys (iox_close (m_fd (heap w this))) s1 = (r2, s2)"
    by (cases "sys (iox_close (m_fd (heap w this))) s1") auto
  obtain r3 s3 where c3: "sys (remove (m_fileLockPath (heap w this))) s2 = (r3, s3)"
    by (cases "sys (remove (m_fileLockPath (heap w this))) s2") auto
  from closeFileDescriptor_valid [where sys = sys, OF False c1 c2 c3] show ?thesis by simp
qed


lemma destructor_fields:
  "calls (destructor E P sys this w) = calls (snd (closeFileDescriptor E P sys this w))
   \<and> heap (destructor E P sys this w) = heap w
   \<and> os (destructor E P sys this w) = os (snd (closeFileDescriptor E P sys this w))"
proof -
  obtain r w' where c: "closeFileDescriptor E P sys this w = (r, w')"
    by (cases "closeFileDescriptor E P sys this w") auto
  with closeFileDescriptor_heap [of E P sys this w] have "heap w' = heap w" by simp
  with c show ?thesis by (cases r) (simp_all add: destructor_def add_logs_def)
qed


text \<open>
  Claim C4. Releasing a valid lock (\<open>closeFileDescriptor\<close>, which the destructor and the
  move assignment run) makes exactly the three calls unlock, close and remove of the lock
  file, in that order, whatever the outcome of each; it returns \<open>INTERNAL_LOGIC_ERROR\<close> if
  any of the three failed and success if all three succeeded. On an invalidated instance
  (sentinel descriptor) it makes no call, changes nothing and succeeds. The destructor makes
  the calls of \<open>closeFileDescriptor\<close> and no other.
\<close>

theorem closeFileDescriptor_best_effort:
  "(m_fd (heap w this) \<noteq> INVALID_FD
      \<and> sys (iox_flock (m_fd (heap w this)) UNLOCK) (os w) = (r1, s1)
      \<and> sys (iox_close (m_fd (heap w this))) s1 = (r2, s2)
      \<and> sys (remove (m_fileLockPath (heap w this))) s2 = (r3, s3)
    \<longrightarrow> calls (snd (closeFileDescriptor E P sys this w))
          = calls w @ [iox_flock (m_fd (heap w this)) UNLOCK, iox_close (m_fd (heap w this)),
                       remove (m_fileLockPath (heap w this))]
        \<and> os (snd (closeFileDescriptor E P sys this w)) = s3
        \<and> heap (snd (closeFileDescriptor E P sys this w)) = heap w
        \<and> fst (closeFileDescriptor E P sys this w)
            = (if isl r1 \<or> isl r2 \<or> isl r3 then Inl INTERNAL_LOGIC_ERROR else Inr ()))
   \<and> (m_fd (heap w this) = INVALID_FD \<longrightarrow> closeFileDescriptor E P sys this w = (Inr (), w))
   \<and> calls (destructor E P sys this w) = calls (snd (closeFileDescriptor E P sys this w))"
proof (intro conjI impI)
  assume a: "m_fd (heap w this) \<noteq> INVALID_FD
      \<and> sys (iox_flock (m_fd (heap w this)) UNLOCK) (os w) = (r1, s1)
      \<and> sys (iox_close (m_fd (heap w this))) s1 = (r2, s2)
      \<and> sys (remove (m_fileLockPath (heap w this))) s2 = (r3, s3)"
  then have v: "m_fd (heap w this) \<noteq> INVALID_FD"
    and c1: "sys (iox_flock (m_fd (heap w this)) UNLOCK) (os w) = (r1, s1)"
    and c2: "sys (iox_close (m_fd (heap w this))) s1 = (r2, s2)"
    and c3: "sys (remove (m_fileLockPath (heap w this))) s2 = (r3, s3)"
    by simp_all
  note t = closeFileDescriptor_valid [where sys = sys and E = E and P = P, OF v c1 c2 c3]
  show "calls (snd (closeFileDescriptor E P sys this w))
          = calls w @ [iox_flock (m_fd (heap w this)) UNLOCK, iox_close (m_fd (heap w this)),
                       remove (m_fileLockPath (heap w this))]"
    using t by (rule conjunct1)
  show "os (snd (closeFileDescriptor E P sys this w)) = s3"
    using t by (elim conjE)
  show "heap (snd (closeFileDescriptor E P sys this w)) = heap w"
    using t by (elim conjE)
  show "fst (closeFileDescriptor E P sys this w)
            = (if isl r1 \<or> isl r2 \<or> isl r3 then Inl INTERNAL_LOGIC_ERROR else Inr ())"
    using t by (elim conjE)
next
  assume "m_fd (heap w this) = INVALID_FD"
  then show "closeFileDescriptor E P sys this w = (Inr (), w)"
    by (rule closeFileDescriptor_invalid)
next
  show "calls (destructor E P sys this w) = calls (snd (closeFileDescriptor E P sys this w))"
    using destructor_fields [of E P sys this w] by (rule conjunct1)
qed

lemma world1_fields:
  "heap world1 1 = \<lparr>m_fd = 3, m_fileLockPath = ''/tmp/a.lock''\<rparr>"
  "heap world1 2 = \<lparr>m_fd = INVALID_FD, m_fileLockPath = []\<rparr>"
  "calls world1 = []" "os world1 = ()" "logs world1 = []"
  by (simp_all add: world1_def world0_def)

theorem closeFileDescriptor_best_effort_witness:
  "m_fd (heap world1 1) \<noteq> INVALID_FD
   \<and> sys_contended (iox_flock 3 UNLOCK) () = (Inl 11, ())
   \<and> sys_contended (iox_close 3) () = (Inl 5, ())
   \<and> sys_contended (remove ''/tmp/a.lock'') () = (Inr 0, ())
   \<and> calls (snd (closeFileDescriptor linux_errnos test_platform sys_contended 1 world1))
       = [iox_flock 3 UNLOCK, iox_close 3, remove ''/tmp/a.lock'']
   \<and> fst (closeFileDescriptor linux_errnos test_platform sys_contended 1 world1)
       = Inl INTERNAL_LOGIC_ERROR
   \<and> m_fd (heap world1 2) = INVALID_FD
   \<and> closeFileDescriptor linux_errnos test_platform sys_contended 2 world1 = (Inr (), world1)"
proof -
  note t1 = closeFileDescriptor_best_effort
          [where w = world1 and this = 1 and sys = sys_contended and E = linux_errnos
             and P = test_platform and ?r1.0 = "Inl 11" and ?s1.0 = "()" and ?r2.0 = "Inl 5"
             and ?s2.0 = "()" and ?r3.0 = "Inr 0" and ?s3.0 = "()"]
  note t2 = closeFileDescriptor_best_effort
          [where w = world1 and this = 2 and sys = sys_contended and E = linux_errnos
             and P = test_platform and ?r1.0 = "Inr 0" and ?s1.0 = "()" and ?r2.0 = "Inr 0"
             and ?s2.0 = "()" and ?r3.0 = "Inr 0" and ?s3.0 = "()"]
  have v: "m_fd (heap world1 1) \<noteq> INVALID_FD" by (simp add: world1_fields INVALID_FD_def)
  have a: "calls (snd (closeFileDescriptor linux_errnos test_platform sys_contended 1 world1))
             = [iox_flock 3 UNLOCK, iox_close 3, remove ''/tmp/a.lock'']
           \<and> fst (closeFileDescriptor linux_errnos test_platform sys_contended 1 world1)
             = Inl INTERNAL_LOGIC_ERROR"
    using t1 v by (simp add: world1_fields)
  have b: "closeFileDescriptor linux_errnos test_platform sys_contended 2 world1 = (Inr (), world1)"
    using t2 by (simp add: world1_fields)
  show ?thesis using v a b by (simp add: world1_fields)
qed

lemma create_lock_failure:
  assumes n: "isValidFileName P (m_name b)" and d: "isValidPathToDirectory P (m_path b)"
    and o: "sys (iox_open (lock_file_path P b) (convertToOflags P READ_ONLY OPEN_OR_CREATE)
                   (m_permission b)) (os w) = (Inr fd, s1)"
    and l: "sys (iox_flock fd LOCK) s1 = (Inl errnum, s2)"
  shows "calls (snd (FileLockBuilder_create E P sys b w))
           = calls w @ [iox_open (lock_file_path P b)
                          (convertToOflags P READ_ONLY OPEN_OR_CREATE) (m_permission b),
                        iox_flock fd LOCK, iox_close fd]
         \<and> fst (FileLockBuilder_create E P sys b w)
             = Inl (fst (convertErrnoToFileLockError E (IOX_LOCK_FILE_PATH_PREFIX P) errnum
                           (lock_file_path P b)))"
proof -
  let ?open = "iox_open (lock_file_path P b) (convertToOflags P READ_ONLY OPEN_OR_CREATE)
                 (m_permission b)"
  obtain r3 s3 where c: "sys (iox_close fd) s2 = (r3, s3)"
    by (cases "sys (iox_close fd) s2") auto
  define w1 where "w1 = w\<lparr>calls := calls w @ [?open], os := s1\<rparr>"
  define w2 where "w2 = w1\<lparr>calls := calls w1 @ [iox_flock fd LOCK], os := s2\<rparr>"
  define w3 where "w3 = w2\<lparr>calls := calls w2 @ [iox_close fd], os := s3\<rparr>"
  have p1: "posixCall sys ?open w = (Inr fd, w1)"
    using o by (simp add: posixCall_def w1_def)
  have p2: "posixCall sys (iox_flock fd LOCK) w1 = (Inl errnum, w2)"
    using l by (simp add: posixCall_def w1_def w2_def)
  have p3: "posixCall sys (iox_close fd) w2 = (r3, w3)"
    using c by (simp add: posixCall_def w2_def w3_def)
  have c3: "calls w3 = calls w @ [?open, iox_flock fd LOCK, iox_close fd]"
    by (simp add: w1_def w2_def w3_def)
  obtain e lg where cv: "convertErrnoToFileLockError E (IOX_LOCK_FILE_PATH_PREFIX P) errnum
                           (lock_file_path P b) = (e, lg)"
    by (cases "convertErrnoToFileLockError E (IOX_LOCK_FILE_PATH_PREFIX P) errnum
                 (lock_file_path P b)") auto
  have "fst (FileLockBuilder_create E P sys b w) = Inl e
        \<and> calls (snd (FileLockBuilder_create E P sys b w)) = calls w3"
    using n d
    by (cases r3) (simp_all add: FileLockBuilder_create_def Let_def p1 p2 p3 cv add_logs_def)
  with c3 cv show ?thesis by simp
qed

lemma distinct_middle: "distinct (xs @ y # ys) \<Longrightarrow> y \<notin> set xs"
  by auto

lemma convert_EWOULDBLOCK:
  "distinct_case_labels E \<Longrightarrow>
   fst (convertErrnoToFileLockError E prefix (EWOULDBLOCK E) path) = LOCKED_BY_OTHER_PROCESS"
proof -
  assume "distinct_case_labels E"
  then have "distinct ([EACCES E, EDQUOT E, EFAULT E, EFBIG E, EOVERFLOW E, ELOOP E,
      EMFILE E, ENFILE E, ENODEV E, ENOENT E, ENOMEM E, ENOSPC E, ENOSYS E, ENXIO E, EPERM E,
      EROFS E, ETXTBSY E] @ EWOULDBLOCK E # [ENOLCK E, EIO E])"
    by (simp only: distinct_case_labels_def case_labels_def append.simps)
  then have "EWOULDBLOCK E \<notin> set [EACCES E, EDQUOT E, EFAULT E, EFBIG E, EOVERFLOW E, ELOOP E,
      EMFILE E, ENFILE E, ENODEV E, ENOENT E, ENOMEM E, ENOSPC E, ENOSYS E, ENXIO E, EPERM E,
      EROFS E, ETXTBSY E]"
    by (rule distinct_middle)
  then show ?thesis unfolding convert_cases by simp
qed

text \<open>
  Claim C5. In \<open>FileLockBuilder::create\<close> with a valid name and path, when \<^verbatim>\<open>open\<close>
  succeeds with descriptor \<open>fd\<close> and the exclusive non-blocking \<^verbatim>\<open>flock\<close> fails with
  \<open>errnum\<close>: the calls made are the open, the lock and then the close of \<open>fd\<close>; the
  returned error is the translation of \<open>errnum\<close>, whatever the close returns; and when
  \<open>errnum\<close> is \<^verbatim>\<open>EWOULDBLOCK\<close> (the case labels being distinct, as a C++ switch needs),
  the error is \<open>LOCKED_BY_OTHER_PROCESS\<close>.
\<close>

theorem FileLockBuilder_create_lock_failure:
  "isValidFileName P (m_name b) \<and> isValidPathToDirectory P (m_path b)
   \<and> sys (iox_open (lock_file_path P b) (convertToOflags P READ_ONLY OPEN_OR_CREATE)
             (m_permission b)) (os w) = (Inr fd, s1)
   \<and> sys (iox_flock fd LOCK) s1 = (Inl errnum, s2)
   \<longrightarrow> calls (snd (FileLockBuilder_create E P sys b w))
         = calls w @ [iox_open (lock_file_path P b)
                        (convertToOflags P READ_ONLY OPEN_OR_CREATE) (m_permission b),
                      iox_flock fd LOCK, iox_close fd]
       \<and> fst (FileLockBuilder_create E P sys b w)
           = Inl (fst (convertErrnoToFileLockError E (IOX_LOCK_FILE_PATH_PREFIX P) errnum
                         (lock_file_path P b)))
       \<and> (distinct_case_labels E \<and> errnum = EWOULDBLOCK E
            \<longrightarrow> fst (FileLockBuilder_create E P sys b w) = Inl LOCKED_BY_OTHER_PROCESS)"
proof (intro impI)
  assume a: "isValidFileName P (m_name b) \<and> isValidPathToDirectory P (m_path b)
   \<and> sys (iox_open (lock_file_path P b) (convertToOflags P READ_ONLY OPEN_OR_CREATE)
             (m_permission b)) (os w) = (Inr fd, s1)
   \<and> sys (iox_flock fd LOCK) s1 = (Inl errnum, s2)"
  then have n: "isValidFileName P (m_name b)" and d: "isValidPathToDirectory P (m_path b)"
    and o: "sys (iox_open (lock_file_path P b) (convertToOflags P READ_ONLY OPEN_OR_CREATE)
                   (m_permission b)) (os w) = (Inr fd, s1)"
    and l: "sys (iox_flock fd LOCK) s1 = (Inl errnum, s2)"
    by simp_all
  note t = create_lock_failure [where sys = sys and E = E, OF n d o l]
  have "distinct_case_labels E \<and> errnum = EWOULDBLOCK E
          \<longrightarrow> fst (FileLockBuilder_create E P sys b w) = Inl LOCKED_BY_OTHER_PROCESS"
    using t by (simp add: convert_EWOULDBLOCK)
  with t show "calls (snd (FileLockBuilder_create E P sys b w))
         = calls w @ [iox_open (lock_file_path P b)
                        (convertToOflags P READ_ONLY OPEN_OR_CREATE) (m_permission b),
                      iox_flock fd LOCK, iox_close fd]
       \<and> fst (FileLockBuilder_create E P sys b w)
           = Inl (fst (convertErrnoToFileLockError E (IOX_LOCK_FILE_PATH_PREFIX P) errnum
                         (lock_file_path P b)))
       \<and> (distinct_case_labels E \<and> errnum = EWOULDBLOCK E
            \<longrightarrow> fst (FileLockBuilder_create E P sys b w) = Inl LOCKED_BY_OTHER_PROCESS)"
    by blast
qed

lemma test_lock_path: "lock_file_path test_platform test_lock_builder = ''/tmp/a.lock''"
  by (simp add: lock_file_path_def test_platform_def test_lock_builder_def)

lemma linux_distinct: "distinct_case_labels linux_errnos"
  by (simp add: distinct_case_labels_def case_labels_def linux_errnos_def)

theorem FileLockBuilder_create_lock_failure_witness:
  "isValidFileName test_platform (m_name test_lock_builder)
   \<and> isValidPathToDirectory test_platform (m_path test_lock_builder)
   \<and> sys_contended (iox_open ''/tmp/a.lock'' 64 384) () = (Inr 3, ())
   \<and> sys_contended (iox_flock 3 LOCK) () = (Inl 11, ())
   \<and> sys_contended (iox_close 3) () = (Inl 5, ())
   \<and> distinct_case_labels linux_errnos \<and> 11 = EWOULDBLOCK linux_errnos
   \<and> calls (snd (FileLockBuilder_create linux_errnos test_platform sys_contended
                    test_lock_builder world0))
       = [iox_open ''/tmp/a.lock'' 64 384, iox_flock 3 LOCK, iox_close 3]
   \<and> fst (FileLockBuilder_create linux_errnos test_platform sys_contended test_lock_builder world0)
       = Inl LOCKED_BY_OTHER_PROCESS"
proof -
  note t = FileLockBuilder_create_lock_failure
             [where P = test_platform and b = test_lock_builder and sys = sys_contended
                and w = world0 and fd = 3 and ?s1.0 = "()" and errnum = 11 and ?s2.0 = "()"
                and E = linux_errnos]
  have v: "isValidFileName test_platform (m_name test_lock_builder)
           \<and> isValidPathToDirectory test_platform (m_path test_lock_builder)"
    by (simp add: test_platform_def test_lock_builder_def)
  have f: "convertToOflags test_platform READ_ONLY OPEN_OR_CREATE = 64"
    "m_permission test_lock_builder = 384" "os world0 = ()" "calls world0 = []"
    "EWOULDBLOCK linux_errnos = 11"
    by (simp_all add: test_platform_def test_lock_builder_def world0_def linux_errnos_def)
  have hyp: "isValidFileName test_platform (m_name test_lock_builder)
      \<and> isValidPathToDirectory test_platform (m_path test_lock_builder)
      \<and> sys_contended (iox_open (lock_file_path test_platform test_lock_builder)
            (convertToOflags test_platform READ_ONLY OPEN_OR_CREATE)
            (m_permission test_lock_builder)) (os world0) = (Inr 3, ())
      \<and> sys_contended (iox_flock 3 LOCK) () = (Inl 11, ())"
    using v by (simp add: test_lock_path f)
  have hyp2: "distinct_case_labels linux_errnos \<and> 11 = EWOULDBLOCK linux_errnos"
    using linux_distinct by (simp add: f)
  from t hyp have c1: "calls (snd (FileLockBuilder_create linux_errnos test_platform sys_contended
                    test_lock_builder world0))
       = calls world0 @ [iox_open (lock_file_path test_platform test_lock_builder)
            (convertToOflags test_platform READ_ONLY OPEN_OR_CREATE)
            (m_permission test_lock_builder), iox_flock 3 LOCK, iox_close 3]"
    and c2: "distinct_case_labels linux_errnos \<and> 11 = EWOULDBLOCK linux_errnos
       \<longrightarrow> fst (FileLockBuilder_create linux_errnos test_platform sys_contended
                  test_lock_builder world0) = Inl LOCKED_BY_OTHER_PROCESS"
    by blast+
  from c2 hyp2 have r: "fst (FileLockBuilder_create linux_errnos test_platform sys_contended
                  test_lock_builder world0) = Inl LOCKED_BY_OTHER_PROCESS"
    by blast
  from c1 have c: "calls (snd (FileLockBuilder_create linux_errnos test_platform sys_contended
                    test_lock_builder world0))
       = [iox_open ''/tmp/a.lock'' 64 384, iox_flock 3 LOCK, iox_close 3]"
    by (simp add: test_lock_path f)
  show ?thesis using v hyp2 r c by simp
qed









subsection \<open>Creation of a shared memory object\<close>

text \<open>The run of create up to the zero-fill decision.\<close>

lemma create_handler_failure:
  assumes sm: "SharedMemoryBuilder_create env (b_name b) (b_accessMode b) (b_openMode b)
                 (b_permissions b) (b_memorySizeInBytes b) = Some sm"
    and mm: "MemoryMapBuilder_create env (hint_or_null b) (b_memorySizeInBytes b) (handle sm)
               (b_accessMode b) = Some mm"
    and own: "ownership sm" and z: "IOX_SHM_WRITE_ZEROS_ON_CREATION env"
    and f: "\<not> registerSignalHandler_succeeds env"
  shows "fst (SharedMemoryObjectBuilder_create env b p) = Returned (Inl INTERNAL_LOGIC_FAILURE)
       \<and> effects (snd (SharedMemoryObjectBuilder_create env b p))
           = effects p @
             [create_SharedMemory (b_name b) (b_accessMode b) (b_openMode b) (b_permissions b)
                (b_memorySizeInBytes b),
              create_MemoryMap (hint_or_null b) (b_memorySizeInBytes b) (handle sm)
                (b_accessMode b),
              lock_sigbusHandlerMutex, registerSignalHandler_BUS, unlock_sigbusHandlerMutex]
       \<and> memory (snd (SharedMemoryObjectBuilder_create env b p)) = memory p
       \<and> sigbusErrorMessage (snd (SharedMemoryObjectBuilder_create env b p))
           = sigbusErrorMessage p"
  using assms
  by (simp add: SharedMemoryObjectBuilder_create_def Let_def hint_or_null_def add_effects_def
                add_log_def)

lemma create_zero_fill:
  assumes sm: "SharedMemoryBuilder_create env (b_name b) (b_accessMode b) (b_openMode b)
                 (b_permissions b) (b_memorySizeInBytes b) = Some sm"
    and mm: "MemoryMapBuilder_create env (hint_or_null b) (b_memorySizeInBytes b) (handle sm)
               (b_accessMode b) = Some mm"
    and own: "ownership sm" and z: "IOX_SHM_WRITE_ZEROS_ON_CREATION env"
    and ok: "registerSignalHandler_succeeds env"
  shows "effects (snd (SharedMemoryObjectBuilder_create env b p))
           = effects p @
             [create_SharedMemory (b_name b) (b_accessMode b) (b_openMode b) (b_permissions b)
                (b_memorySizeInBytes b),
              create_MemoryMap (hint_or_null b) (b_memorySizeInBytes b) (handle sm)
                (b_accessMode b),
              lock_sigbusHandlerMutex, registerSignalHandler_BUS,
              snprintf_sigbusErrorMessage
                (sigbusErrorMessage (snd (SharedMemoryObjectBuilder_create env b p))),
              memset (baseAddress mm) 0 (unat (b_memorySizeInBytes b))]
             @ (case memset_sigbus env of
                  None \<Rightarrow> [restoreSignalHandler_BUS, unlock_sigbusHandlerMutex]
                | Some k \<Rightarrow>
                    [write_fd STDERR_FILENO
                       (sigbusErrorMessage (snd (SharedMemoryObjectBuilder_create env b p))),
                     exit_process EXIT_FAILURE])
       \<and> length (sigbusErrorMessage (snd (SharedMemoryObjectBuilder_create env b p)))
           < SIGBUS_ERROR_MESSAGE_LENGTH env"
proof -
  have len: "0 < SIGBUS_ERROR_MESSAGE_LENGTH env" by (simp add: SIGBUS_ERROR_MESSAGE_LENGTH_def)
  have tk: "\<And>t. length (take (SIGBUS_ERROR_MESSAGE_LENGTH env - 1) t)
                  < SIGBUS_ERROR_MESSAGE_LENGTH env"
    using len by simp
  have tk2: "\<And>t. take (strnlen (take (SIGBUS_ERROR_MESSAGE_LENGTH env - 1) t)
                          (SIGBUS_ERROR_MESSAGE_LENGTH env))
                    (take (SIGBUS_ERROR_MESSAGE_LENGTH env - 1) t)
                = take (SIGBUS_ERROR_MESSAGE_LENGTH env - 1) t"
    by (simp add: strnlen_def min_def)
  show ?thesis
  proof (cases "memset_sigbus env")
    case None
    with assms tk show ?thesis
      by (simp add: SharedMemoryObjectBuilder_create_def Let_def hint_or_null_def
                    add_effects_def add_log_def)
  next
    case (Some k)
    with assms tk tk2 show ?thesis
      by (simp add: SharedMemoryObjectBuilder_create_def Let_def hint_or_null_def
                    add_effects_def add_log_def memsetSigbusHandler_def)
  qed
qed

lemma create_effects_zero_fill:
  assumes sm: "SharedMemoryBuilder_create env (b_name b) (b_accessMode b) (b_openMode b)
                 (b_permissions b) (b_memorySizeInBytes b) = Some sm"
    and mm: "MemoryMapBuilder_create env (hint_or_null b) (b_memorySizeInBytes b) (handle sm)
               (b_accessMode b) = Some mm"
    and own: "ownership sm" and z: "IOX_SHM_WRITE_ZEROS_ON_CREATION env"
    and ok: "registerSignalHandler_succeeds env"
  shows "create_effects env b p
           = [create_SharedMemory (b_name b) (b_accessMode b) (b_openMode b) (b_permissions b)
                (b_memorySizeInBytes b),
              create_MemoryMap (hint_or_null b) (b_memorySizeInBytes b) (handle sm)
                (b_accessMode b),
              lock_sigbusHandlerMutex, registerSignalHandler_BUS,
              snprintf_sigbusErrorMessage
                (sigbusErrorMessage (snd (SharedMemoryObjectBuilder_create env b p))),
              memset (baseAddress mm) 0 (unat (b_memorySizeInBytes b))]
             @ (case memset_sigbus env of
                  None \<Rightarrow> [restoreSignalHandler_BUS, unlock_sigbusHandlerMutex]
                | Some k \<Rightarrow>
                    [write_fd STDERR_FILENO
                       (sigbusErrorMessage (snd (SharedMemoryObjectBuilder_create env b p))),
                     exit_process EXIT_FAILURE])"
  unfolding create_effects_def
  by (subst create_zero_fill [OF assms, THEN conjunct1]) simp

lemma zero_fill_order:
  assumes "evs = [e1, e2, lock_sigbusHandlerMutex, registerSignalHandler_BUS,
                  snprintf_sigbusErrorMessage t, memset a v n] @ rest"
    and "\<not> is_install e1" "\<not> is_install e2" "\<not> is_format e1" "\<not> is_format e2"
    and "\<not> is_memset e1" "\<not> is_memset e2"
  shows "first_pos is_install evs = 3 \<and> first_pos is_format evs = 4
         \<and> first_pos is_memset evs = 5 \<and> 5 < length evs"
  using assms by (simp add: first_pos_def is_install_def)

lemma memsetSigbusHandler_fields:
  "sigbusErrorMessage (memsetSigbusHandler env q) = sigbusErrorMessage q
   \<and> memory (memsetSigbusHandler env q) = memory q
   \<and> effects (memsetSigbusHandler env q)
       = effects q @ [write_fd STDERR_FILENO
                        (take (strnlen (sigbusErrorMessage q) (SIGBUS_ERROR_MESSAGE_LENGTH env))
                           (sigbusErrorMessage q)),
                      exit_process EXIT_FAILURE]"
  by (simp add: memsetSigbusHandler_def add_effects_def)

text \<open>
  Claim C6, as amended. When the call owns the segment, the platform requires zero-initialised
  shared memory and the installation of the SIGBUS handler succeeds, \<open>create\<close> writes the
  diagnostic message into the process-wide buffer after the handler is installed and before
  the zero fill starts, and the message is shorter than the buffer. The handler itself formats
  nothing: it leaves the buffer as it is, writes its text to the error stream and exits.
\<close>

theorem create_formats_after_install:
  "(SharedMemoryBuilder_create env (b_name b) (b_accessMode b) (b_openMode b)
       (b_permissions b) (b_memorySizeInBytes b) = Some sm
    \<and> MemoryMapBuilder_create env (hint_or_null b) (b_memorySizeInBytes b) (handle sm)
         (b_accessMode b) = Some mm
    \<and> ownership sm \<and> IOX_SHM_WRITE_ZEROS_ON_CREATION env \<and> registerSignalHandler_succeeds env
    \<longrightarrow> first_pos is_install (create_effects env b p)
          < first_pos is_format (create_effects env b p)
        \<and> first_pos is_format (create_effects env b p)
          < first_pos is_memset (create_effects env b p)
        \<and> first_pos is_memset (create_effects env b p) < length (create_effects env b p)
        \<and> length (sigbusErrorMessage (snd (SharedMemoryObjectBuilder_create env b p)))
          < SIGBUS_ERROR_MESSAGE_LENGTH env)
   \<and> sigbusErrorMessage (memsetSigbusHandler env q) = sigbusErrorMessage q
   \<and> effects (memsetSigbusHandler env q)
       = effects q @ [write_fd STDERR_FILENO
                        (take (strnlen (sigbusErrorMessage q) (SIGBUS_ERROR_MESSAGE_LENGTH env))
                           (sigbusErrorMessage q)),
                      exit_process EXIT_FAILURE]"
proof (intro conjI impI)
  assume a: "SharedMemoryBuilder_create env (b_name b) (b_accessMode b) (b_openMode b)
       (b_permissions b) (b_memorySizeInBytes b) = Some sm
    \<and> MemoryMapBuilder_create env (hint_or_null b) (b_memorySizeInBytes b) (handle sm)
         (b_accessMode b) = Some mm
    \<and> ownership sm \<and> IOX_SHM_WRITE_ZEROS_ON_CREATION env \<and> registerSignalHandler_succeeds env"
  then have sm: "SharedMemoryBuilder_create env (b_name b) (b_accessMode b) (b_openMode b)
                 (b_permissions b) (b_memorySizeInBytes b) = Some sm"
    and mm: "MemoryMapBuilder_create env (hint_or_null b) (b_memorySizeInBytes b) (handle sm)
               (b_accessMode b) = Some mm"
    and own: "ownership sm" and z: "IOX_SHM_WRITE_ZEROS_ON_CREATION env"
    and ok: "registerSignalHandler_succeeds env"
    by simp_all
  note tr = create_effects_zero_fill [OF sm mm own z ok, of p]
  have ord: "first_pos is_install (create_effects env b p) = 3
             \<and> first_pos is_format (create_effects env b p) = 4
             \<and> first_pos is_memset (create_effects env b p) = 5
             \<and> 5 < length (create_effects env b p)"
    by (rule zero_fill_order [OF tr]) (simp_all add: is_install_def)
  from ord show "first_pos is_install (create_effects env b p)
          < first_pos is_format (create_effects env b p)" by simp
  from ord show "first_pos is_format (create_effects env b p)
          < first_pos is_memset (create_effects env b p)" by simp
  from ord show "first_pos is_memset (create_effects env b p) < length (create_effects env b p)"
    by simp
  from create_zero_fill [OF sm mm own z ok, of p]
  show "length (sigbusErrorMessage (snd (SharedMemoryObjectBuilder_create env b p)))
          < SIGBUS_ERROR_MESSAGE_LENGTH env" by (rule conjunct2)
next
  show "sigbusErrorMessage (memsetSigbusHandler env q) = sigbusErrorMessage q"
    using memsetSigbusHandler_fields [of env q] by (elim conjE)
  show "effects (memsetSigbusHandler env q)
       = effects q @ [write_fd STDERR_FILENO
                        (take (strnlen (sigbusErrorMessage q) (SIGBUS_ERROR_MESSAGE_LENGTH env))
                           (sigbusErrorMessage q)),
                      exit_process EXIT_FAILURE]"
    using memsetSigbusHandler_fields [of env q] by (elim conjE)
qed

lemma test_env_fields:
  "SharedMemoryBuilder_create test_env (b_name test_builder) (b_accessMode test_builder)
     (b_openMode test_builder) (b_permissions test_builder) (b_memorySizeInBytes test_builder)
     = Some \<lparr>handle = 3, ownership = True\<rparr>"
  "MemoryMapBuilder_create test_env (hint_or_null test_builder)
     (b_memorySizeInBytes test_builder) (handle \<lparr>handle = 3, ownership = True\<rparr>)
     (b_accessMode test_builder) = Some \<lparr>baseAddress = 65536, mappedLength = 4096\<rparr>"
  "ownership \<lparr>handle = 3, ownership = True\<rparr>"
  "IOX_SHM_WRITE_ZEROS_ON_CREATION test_env" "registerSignalHandler_succeeds test_env"
  by (simp_all add: test_env_def test_builder_def)

theorem create_formats_after_install_witness:
  "SharedMemoryBuilder_create test_env (b_name test_builder) (b_accessMode test_builder)
     (b_openMode test_builder) (b_permissions test_builder) (b_memorySizeInBytes test_builder)
     = Some \<lparr>handle = 3, ownership = True\<rparr>
   \<and> MemoryMapBuilder_create test_env (hint_or_null test_builder)
     (b_memorySizeInBytes test_builder) (handle \<lparr>handle = 3, ownership = True\<rparr>)
     (b_accessMode test_builder) = Some \<lparr>baseAddress = 65536, mappedLength = 4096\<rparr>
   \<and> ownership \<lparr>handle = 3, ownership = True\<rparr>
   \<and> IOX_SHM_WRITE_ZEROS_ON_CREATION test_env \<and> registerSignalHandler_succeeds test_env
   \<and> first_pos is_install (create_effects test_env test_builder process0)
       < first_pos is_format (create_effects test_env test_builder process0)
   \<and> first_pos is_format (create_effects test_env test_builder process0)
       < first_pos is_memset (create_effects test_env test_builder process0)
   \<and> first_pos is_memset (create_effects test_env test_builder process0)
       < length (create_effects test_env test_builder process0)"
  using create_formats_after_install
          [where env = test_env and b = test_builder and p = process0
             and sm = "\<lparr>handle = 3, ownership = True\<rparr>"
             and mm = "\<lparr>baseAddress = 65536, mappedLength = 4096\<rparr>"]
        test_env_fields
  by blast

theorem create_formats_before_install_counterexample:
  "IOX_SHM_WRITE_ZEROS_ON_CREATION test_env
   \<and> first_pos is_install (create_effects test_env test_builder process0) = 3
   \<and> first_pos is_format (create_effects test_env test_builder process0) = 4
   \<and> \<not> first_pos is_format (create_effects test_env test_builder process0)
         < first_pos is_install (create_effects test_env test_builder process0)"
proof -
  note tr = create_effects_zero_fill [OF test_env_fields, of process0]
  have ord: "first_pos is_install (create_effects test_env test_builder process0) = 3
             \<and> first_pos is_format (create_effects test_env test_builder process0) = 4
             \<and> first_pos is_memset (create_effects test_env test_builder process0) = 5
             \<and> 5 < length (create_effects test_env test_builder process0)"
    by (rule zero_fill_order [OF tr]) (simp_all add: is_install_def)
  with test_env_fields(4) show ?thesis by simp
qed

text \<open>
  Claim C10. When the shared memory and the mapping are built, the call owns the segment, the
  platform requires zero-initialised shared memory and installing the temporary SIGBUS handler
  fails, \<open>create\<close> returns \<open>INTERNAL_LOGIC_FAILURE\<close>, which is neither
  \<open>SHARED_MEMORY_CREATION_FAILED\<close> nor \<open>MAPPING_SHARED_MEMORY_FAILED\<close>; nothing is zero
  filled (no \<^verbatim>\<open>memset\<close> among the effects, the memory is as before) and the diagnostic buffer
  is not written.
\<close>

theorem create_handler_installation_failure:
  "SharedMemoryBuilder_create env (b_name b) (b_accessMode b) (b_openMode b)
       (b_permissions b) (b_memorySizeInBytes b) = Some sm
   \<and> MemoryMapBuilder_create env (hint_or_null b) (b_memorySizeInBytes b) (handle sm)
         (b_accessMode b) = Some mm
   \<and> ownership sm \<and> IOX_SHM_WRITE_ZEROS_ON_CREATION env
   \<and> \<not> registerSignalHandler_succeeds env
   \<longrightarrow> fst (SharedMemoryObjectBuilder_create env b p) = Returned (Inl INTERNAL_LOGIC_FAILURE)
       \<and> fst (SharedMemoryObjectBuilder_create env b p)
           \<noteq> Returned (Inl SHARED_MEMORY_CREATION_FAILED)
       \<and> fst (SharedMemoryObjectBuilder_create env b p)
           \<noteq> Returned (Inl MAPPING_SHARED_MEMORY_FAILED)
       \<and> create_effects env b p
           = [create_SharedMemory (b_name b) (b_accessMode b) (b_openMode b) (b_permissions b)
                (b_memorySizeInBytes b),
              create_MemoryMap (hint_or_null b) (b_memorySizeInBytes b) (handle sm)
                (b_accessMode b),
              lock_sigbusHandlerMutex, registerSignalHandler_BUS, unlock_sigbusHandlerMutex]
       \<and> memory (snd (SharedMemoryObjectBuilder_create env b p)) = memory p
       \<and> sigbusErrorMessage (snd (SharedMemoryObjectBuilder_create env b p))
           = sigbusErrorMessage p"
proof (intro impI)
  assume a: "SharedMemoryBuilder_create env (b_name b) (b_accessMode b) (b_openMode b)
       (b_permissions b) (b_memorySizeInBytes b) = Some sm
   \<and> MemoryMapBuilder_create env (hint_or_null b) (b_memorySizeInBytes b) (handle sm)
         (b_accessMode b) = Some mm
   \<and> ownership sm \<and> IOX_SHM_WRITE_ZEROS_ON_CREATION env
   \<and> \<not> registerSignalHandler_succeeds env"
  then have sm: "SharedMemoryBuilder_create env (b_name b) (b_accessMode b) (b_openMode b)
                 (b_permissions b) (b_memorySizeInBytes b) = Some sm"
    and mm: "MemoryMapBuilder_create env (hint_or_null b) (b_memorySizeInBytes b) (handle sm)
               (b_accessMode b) = Some mm"
    and own: "ownership sm" and z: "IOX_SHM_WRITE_ZEROS_ON_CREATION env"
    and f: "\<not> registerSignalHandler_succeeds env"
    by simp_all
  note t = create_handler_failure [OF sm mm own z f, of p]
  from t have r: "fst (SharedMemoryObjectBuilder_create env b p)
                    = Returned (Inl INTERNAL_LOGIC_FAILURE)"
    by (rule conjunct1)
  from t have e: "effects (snd (SharedMemoryObjectBuilder_create env b p))
           = effects p @
             [create_SharedMemory (b_name b) (b_accessMode b) (b_openMode b) (b_permissions b)
                (b_memorySizeInBytes b),
              create_MemoryMap (hint_or_null b) (b_memorySizeInBytes b) (handle sm)
                (b_accessMode b),
              lock_sigbusHandlerMutex, registerSignalHandler_BUS, unlock_sigbusHandlerMutex]"
    by (elim conjE)
  have ce: "create_effects env b p
           = [create_SharedMemory (b_name b) (b_accessMode b) (b_openMode b) (b_permissions b)
                (b_memorySizeInBytes b),
              create_MemoryMap (hint_or_null b) (b_memorySizeInBytes b) (handle sm)
                (b_accessMode b),
              lock_sigbusHandlerMutex, registerSignalHandler_BUS, unlock_sigbusHandlerMutex]"
    unfolding create_effects_def by (subst e) simp
  from t r ce show "fst (SharedMemoryObjectBuilder_create env b p) = Returned (Inl INTERNAL_LOGIC_FAILURE)
       \<and> fst (SharedMemoryObjectBuilder_create env b p)
           \<noteq> Returned (Inl SHARED_MEMORY_CREATION_FAILED)
       \<and> fst (SharedMemoryObjectBuilder_create env b p)
           \<noteq> Returned (Inl MAPPING_SHARED_MEMORY_FAILED)
       \<and> create_effects env b p
           = [create_SharedMemory (b_name b) (b_accessMode b) (b_openMode b) (b_permissions b)
                (b_memorySizeInBytes b),
              create_MemoryMap (hint_or_null b) (b_memorySizeInBytes b) (handle sm)
                (b_accessMode b),
              lock_sigbusHandlerMutex, registerSignalHandler_BUS, unlock_sigbusHandlerMutex]
       \<and> memory (snd (SharedMemoryObjectBuilder_create env b p)) = memory p
       \<and> sigbusErrorMessage (snd (SharedMemoryObjectBuilder_create env b p))
           = sigbusErrorMessage p"
    by simp
qed

lemma failing_env_fields:
  "SharedMemoryBuilder_create (test_env\<lparr>registerSignalHandler_succeeds := False\<rparr>)
     (b_name test_builder) (b_accessMode test_builder)
     (b_openMode test_builder) (b_permissions test_builder) (b_memorySizeInBytes test_builder)
     = Some \<lparr>handle = 3, ownership = True\<rparr>"
  "MemoryMapBuilder_create (test_env\<lparr>registerSignalHandler_succeeds := False\<rparr>)
     (hint_or_null test_builder)
     (b_memorySizeInBytes test_builder) (handle \<lparr>handle = 3, ownership = True\<rparr>)
     (b_accessMode test_builder) = Some \<lparr>baseAddress = 65536, mappedLength = 4096\<rparr>"
  "ownership \<lparr>handle = 3, ownership = True\<rparr>"
  "IOX_SHM_WRITE_ZEROS_ON_CREATION (test_env\<lparr>registerSignalHandler_succeeds := False\<rparr>)"
  "\<not> registerSignalHandler_succeeds (test_env\<lparr>registerSignalHandler_succeeds := False\<rparr>)"
  by (simp_all add: test_env_def test_builder_def)

theorem create_handler_installation_failure_witness:
  "SharedMemoryBuilder_create (test_env\<lparr>registerSignalHandler_succeeds := False\<rparr>)
     (b_name test_builder) (b_accessMode test_builder)
     (b_openMode test_builder) (b_permissions test_builder) (b_memorySizeInBytes test_builder)
     = Some \<lparr>handle = 3, ownership = True\<rparr>
   \<and> MemoryMapBuilder_create (test_env\<lparr>registerSignalHandler_succeeds := False\<rparr>)
     (hint_or_null test_builder)
     (b_memorySizeInBytes test_builder) (handle \<lparr>handle = 3, ownership = True\<rparr>)
     (b_accessMode test_builder) = Some \<lparr>baseAddress = 65536, mappedLength = 4096\<rparr>
   \<and> ownership \<lparr>handle = 3, ownership = True\<rparr>
   \<and> IOX_SHM_WRITE_ZEROS_ON_CREATION (test_env\<lparr>registerSignalHandler_succeeds := False\<rparr>)
   \<and> \<not> registerSignalHandler_succeeds (test_env\<lparr>registerSignalHandler_succeeds := False\<rparr>)
   \<and> fst (SharedMemoryObjectBuilder_create (test_env\<lparr>registerSignalHandler_succeeds := False\<rparr>)
            test_builder process0) = Returned (Inl INTERNAL_LOGIC_FAILURE)
   \<and> memory (snd (SharedMemoryObjectBuilder_create
                    (test_env\<lparr>registerSignalHandler_succeeds := False\<rparr>)
                    test_builder process0)) = memory process0"
  using create_handler_installation_failure
          [where env = "test_env\<lparr>registerSignalHandler_succeeds := False\<rparr>"
             and b = test_builder and p = process0
             and sm = "\<lparr>handle = 3, ownership = True\<rparr>"
             and mm = "\<lparr>baseAddress = 65536, mappedLength = 4096\<rparr>"]
        failing_env_fields
  by blast

end
